theory Spec2Isabelle
  imports Complex_Main
begin

section \<open>JavaScript containers and strings\<close>

text \<open>
  A JavaScript \<open>Map\<close> keeps its entries in insertion order and holds each key once.
  It is modelled as an association list: \<open>set\<close> on a key that is present replaces the
  value in place (the key keeps its position), \<open>set\<close> on a new key appends, \<open>delete\<close>
  removes the entry of the key. The operations keep the keys of a list distinct.
\<close>

type_synonym ('k, 'v) js_map = "('k \<times> 'v) list"

fun Map_get :: "('k, 'v) js_map \<Rightarrow> 'k \<Rightarrow> 'v option" where
  "Map_get [] k = None"
| "Map_get ((k', v) # m) k = (if k' = k then Some v else Map_get m k)"

fun Map_set :: "('k, 'v) js_map \<Rightarrow> 'k \<Rightarrow> 'v \<Rightarrow> ('k, 'v) js_map" where
  "Map_set [] k v = [(k, v)]"
| "Map_set ((k', v') # m) k v = (if k' = k then (k, v) # m else (k', v') # Map_set m k v)"

definition Map_delete :: "('k, 'v) js_map \<Rightarrow> 'k \<Rightarrow> ('k, 'v) js_map" where
  "Map_delete m k = filter (\<lambda>p. fst p \<noteq> k) m"

definition Map_has :: "('k, 'v) js_map \<Rightarrow> 'k \<Rightarrow> bool" where
  "Map_has m k = (Map_get m k \<noteq> None)"

definition Map_keys :: "('k, 'v) js_map \<Rightarrow> 'k list" where
  "Map_keys m = map fst m"

definition Map_values :: "('k, 'v) js_map \<Rightarrow> 'v list" where
  "Map_values m = map snd m"

definition Map_size :: "('k, 'v) js_map \<Rightarrow> nat" where
  "Map_size m = length m"

text \<open>
  \<open>String(n)\<close> and template interpolation of a non-negative integer: its decimal digits.
  Counters of the source are JavaScript numbers starting at 0 and incremented by one;
  they are modelled as \<open>nat\<close> (the increments are exact far beyond any number of calls a
  session can make).
\<close>

definition digit_char :: "nat \<Rightarrow> char" where
  "digit_char d = char_of (48 + d)"

function show_nat :: "nat \<Rightarrow> string" where
  "show_nat n = (if n < 10 then [digit_char n] else show_nat (n div 10) @ [digit_char (n mod 10)])"
  by pat_completeness auto
termination
  by (relation "measure id") auto

declare show_nat.simps [simp del]

text \<open>\<open>pattern.startsWith('/') && pattern.endsWith('/')\<close> and \<open>pattern.slice(1, -1)\<close>.\<close>

definition startsWith_slash :: "string \<Rightarrow> bool" where
  "startsWith_slash p = (case p of [] \<Rightarrow> False | c # _ \<Rightarrow> c = CHR ''/'')"

definition endsWith_slash :: "string \<Rightarrow> bool" where
  "endsWith_slash p = (case rev p of [] \<Rightarrow> False | c # _ \<Rightarrow> c = CHR ''/'')"

definition slice_1_m1 :: "string \<Rightarrow> string" where
  "slice_1_m1 p = butlast (tl p)"

text \<open>
  The three \<open>replace\<close> calls of the glob conversion, in the source's order:
  \<open>/[.+^${}()|[\]\\]/g\<close> to \<open>\\$&\<close>, then \<open>/\*/g\<close> to \<open>.*\<close>, then \<open>/\?/g\<close> to \<open>.\<close>.
\<close>

definition backslash :: char where
  "backslash = CHR 0x5C"

definition regex_special :: "char list" where
  "regex_special = ''.+^${}()|[]'' @ [backslash]"

definition replace_special :: "string \<Rightarrow> string" where
  "replace_special p = concat (map (\<lambda>c. if c \<in> set regex_special then [backslash, c] else [c]) p)"

definition replace_star :: "string \<Rightarrow> string" where
  "replace_star p = concat (map (\<lambda>c. if c = CHR ''*'' then ''.*'' else [c]) p)"

definition replace_question :: "string \<Rightarrow> string" where
  "replace_question p = concat (map (\<lambda>c. if c = CHR ''?'' then ''.'' else [c]) p)"

definition glob_escaped :: "string \<Rightarrow> string" where
  "glob_escaped p = replace_question (replace_star (replace_special p))"

section \<open>Regular expressions\<close>

text \<open>
  \<open>new RegExp(source)\<close> belongs to the JavaScript runtime, not to the repository. The
  operations below take it as a parameter: a constructor that either throws a
  \<open>SyntaxError\<close> (\<open>None\<close>) or gives a regular expression, of which the code only ever
  calls \<open>test\<close> (no flags, so \<open>test\<close> has no state).
\<close>

type_synonym RegExp = "string \<Rightarrow> bool"
type_synonym RegExp_ctor = "string \<Rightarrow> RegExp option"

datatype js_error =
    SyntaxError
  | Error string
  | PausedError string
  | CDPClientError int string

text \<open>
  For evaluation at concrete inputs: the constructor on a fragment of the ECMAScript
  syntax. The fragment has literal characters, \<open>\<close>\<open>.\<close>, a backslash followed by a syntax
  character, \<open>^\<close>, \<open>$\<close>, a postfix \<open>*\<close> on a one-character atom, and bracket classes
  \<open>[abc]\<close> of plain characters. On the fragment it answers as ECMAScript does; in
  particular a class that is never closed, a dangling \<open>*\<close> and a trailing backslash
  are syntax errors. Sources with any other construct (groups, alternation, ranges,
  \<open>+\<close>, \<open>?\<close>, braces, letter escapes) are outside the fragment and are not to be
  evaluated with it; it answers \<open>None\<close> there too.
\<close>

datatype rx_atom = Lit char | AnyChar | Cls "char list"
datatype rx_piece = One rx_atom | Star rx_atom | Bol | Eol

definition rx_syntax_chars :: "char list" where
  "rx_syntax_chars = ''^$.*+?()[]{}|/'' @ [backslash]"

datatype rx_mode = Normal | Escaped | InClass "char list"

fun rx_parse :: "rx_mode \<Rightarrow> rx_piece list \<Rightarrow> string \<Rightarrow> rx_piece list option" where
  "rx_parse Normal acc [] = Some (rev acc)"
| "rx_parse Escaped acc [] = None"
| "rx_parse (InClass ms) acc [] = None"
| "rx_parse Normal acc (c # cs) =
     (if c = backslash then rx_parse Escaped acc cs
      else if c = CHR ''['' then rx_parse (InClass []) acc cs
      else if c = CHR ''^'' then rx_parse Normal (Bol # acc) cs
      else if c = CHR ''$'' then rx_parse Normal (Eol # acc) cs
      else if c = CHR ''.'' then rx_parse Normal (One AnyChar # acc) cs
      else if c = CHR ''*'' then
        (case acc of One a # acc' \<Rightarrow> rx_parse Normal (Star a # acc') cs | _ \<Rightarrow> None)
      else if c \<in> set ''+?(){}|]'' then None
      else rx_parse Normal (One (Lit c) # acc) cs)"
| "rx_parse Escaped acc (c # cs) =
     (if c \<in> set rx_syntax_chars then rx_parse Normal (One (Lit c) # acc) cs else None)"
| "rx_parse (InClass ms) acc (c # cs) =
     (if c = CHR '']'' then rx_parse Normal (One (Cls (rev ms)) # acc) cs
      else if c = backslash \<or> c = CHR ''-'' \<or> c = CHR ''^'' \<or> c = CHR ''['' then None
      else rx_parse (InClass (c # ms)) acc cs)"

fun rx_atom_ok :: "rx_atom \<Rightarrow> char \<Rightarrow> bool" where
  "rx_atom_ok (Lit c) d = (c = d)"
| "rx_atom_ok AnyChar d = (d \<noteq> CHR 0x0A \<and> d \<noteq> CHR 0x0D)"
| "rx_atom_ok (Cls ms) d = (d \<in> set ms)"

fun rx_match :: "rx_piece list \<Rightarrow> string \<Rightarrow> bool \<Rightarrow> bool" where
  "rx_match [] s at_start = True"
| "rx_match (Bol # ps) s at_start = (at_start \<and> rx_match ps s at_start)"
| "rx_match (Eol # ps) s at_start = (s = [] \<and> rx_match ps s at_start)"
| "rx_match (One a # ps) [] at_start = False"
| "rx_match (One a # ps) (c # cs) at_start = (rx_atom_ok a c \<and> rx_match ps cs False)"
| "rx_match (Star a # ps) [] at_start = rx_match ps [] at_start"
| "rx_match (Star a # ps) (c # cs) at_start =
     (rx_match ps (c # cs) at_start \<or> (rx_atom_ok a c \<and> rx_match (Star a # ps) cs False))"

fun rx_search :: "rx_piece list \<Rightarrow> string \<Rightarrow> bool \<Rightarrow> bool" where
  "rx_search ps [] at_start = rx_match ps [] at_start"
| "rx_search ps (c # cs) at_start = (rx_match ps (c # cs) at_start \<or> rx_search ps cs False)"

definition RegExp_lite :: RegExp_ctor where
  "RegExp_lite source =
     (case rx_parse Normal [] source of None \<Rightarrow> None | Some ps \<Rightarrow> Some (\<lambda>s. rx_search ps s True))"

section \<open>Opaque payloads and base64\<close>

text \<open>
  CDP payloads that the engine only passes through (\<open>unknown\<close>,
  \<open>Record<string, unknown>\<close>) are JSON values.
\<close>

datatype json =
    JNull
  | JBool bool
  | JNum int
  | JStr string
  | JArr "json list"
  | JObj "(string \<times> json) list"

text \<open>
  \<open>Buffer.from(body).toString('base64')\<close>: the bytes of the string (a \<open>string\<close> here
  is its byte sequence) in the standard alphabet, padded with \<open>=\<close>.
\<close>

definition base64_alphabet :: string where
  "base64_alphabet = ''ABCDEFGHIJKLMNOPQRSTUVWXYZabcdefghijklmnopqrstuvwxyz0123456789+/''"

definition base64_digit :: "nat \<Rightarrow> char" where
  "base64_digit n = base64_alphabet ! (n mod 64)"

fun base64 :: "string \<Rightarrow> string" where
  "base64 [] = []"
| "base64 [a] =
     (let x = (of_char a :: nat)
      in [base64_digit (x div 4), base64_digit ((x mod 4) * 16), CHR ''='', CHR ''=''])"
| "base64 [a, b] =
     (let x = (of_char a :: nat); y = (of_char b :: nat)
      in [base64_digit (x div 4), base64_digit ((x mod 4) * 16 + y div 16),
          base64_digit ((y mod 16) * 4), CHR ''=''])"
| "base64 (a # b # c # rest) =
     (let x = (of_char a :: nat); y = (of_char b :: nat); z = (of_char c :: nat)
      in [base64_digit (x div 4), base64_digit ((x mod 4) * 16 + y div 16),
          base64_digit ((y mod 16) * 4 + z div 64), base64_digit (z mod 64)] @ base64 rest)"

section \<open>FetchInterceptor (src/state/FetchInterceptor.ts)\<close>

type_synonym ResourceType = string
type_synonym headers = "(string \<times> string) list"
type_synonym rule_ref = nat

datatype InterceptAction = pause | modify | mock | fail

record MockResponse =
  mr_status :: int
  mr_headers :: "headers option"
  mr_body :: string

record InterceptRule =
  r_id :: string
  r_pattern :: string
  r_resourceTypes :: "ResourceType list option"
  r_action :: InterceptAction
  r_modifyHeaders :: "headers option"
  r_modifyUrl :: "string option"
  r_mockResponse :: "MockResponse option"
  r_failReason :: "string option"
  r_enabled :: bool

text \<open>
  The argument of \<open>addRule\<close>, \<open>Omit<InterceptRule, 'id'>\<close>; \<open>enabled\<close> is read with
  \<open>?? true\<close>, so it may be absent.
\<close>

record RuleSpec =
  n_pattern :: string
  n_resourceTypes :: "ResourceType list option"
  n_action :: InterceptAction
  n_modifyHeaders :: "headers option"
  n_modifyUrl :: "string option"
  n_mockResponse :: "MockResponse option"
  n_failReason :: "string option"
  n_enabled :: "bool option"

text \<open>
  The argument of \<open>updateRule\<close>, \<open>Partial<Omit<InterceptRule, 'id'>>\<close>: each field is
  either absent (\<open>None\<close>) or carries the new value; \<open>id\<close> is not a field of it.
\<close>

record RuleUpdates =
  u_pattern :: "string option"
  u_resourceTypes :: "ResourceType list option option"
  u_action :: "InterceptAction option"
  u_modifyHeaders :: "headers option option"
  u_modifyUrl :: "string option option"
  u_mockResponse :: "MockResponse option option"
  u_failReason :: "string option option"
  u_enabled :: "bool option"

record RequestData =
  rq_url :: string
  rq_method :: string
  rq_headers :: headers
  rq_postData :: "string option"
  rq_hasPostData :: "bool option"
  rq_mixedContentType :: "string option"
  rq_initialPriority :: string
  rq_referrerPolicy :: string

record FetchRequestPaused =
  fp_requestId :: string
  fp_request :: RequestData
  fp_frameId :: string
  fp_resourceType :: ResourceType

record PausedRequest =
  p_requestId :: string
  p_url :: string
  p_method :: string
  p_resourceType :: ResourceType
  p_headers :: headers
  p_postData :: "string option"
  p_timestamp :: nat
  p_matchedRule :: "rule_ref option"

text \<open>
  The rule map holds rule objects, and a paused request keeps the very object that matched
  it, so a later \<open>enableRule\<close> or \<open>updateRule\<close> shows through the paused request, and a
  rule taken out of the map lives on in the paused requests that matched it. The objects
  are therefore kept in a store of their own, \<open>fi_objects\<close>, in the order of their creation;
  a reference is the position of the object in the store; the map and the paused requests
  hold references.
\<close>

record FetchInterceptor =
  fi_objects :: "InterceptRule list"
  fi_rules :: "(string, rule_ref) js_map"
  fi_pausedRequests :: "(string, PausedRequest) js_map"
  fi_enabled :: bool
  fi_ruleIdCounter :: nat

definition FetchInterceptor_new :: FetchInterceptor where
  "FetchInterceptor_new =
     \<lparr>fi_objects = [], fi_rules = [], fi_pausedRequests = [], fi_enabled = False,
      fi_ruleIdCounter = 0\<rparr>"

definition deref :: "InterceptRule list \<Rightarrow> rule_ref \<Rightarrow> InterceptRule option" where
  "deref objects a = (if a < length objects then Some (objects ! a) else None)"

definition fi_setEnabled :: "bool \<Rightarrow> FetchInterceptor \<Rightarrow> FetchInterceptor" where
  "fi_setEnabled en fi =
     (let fi1 = fi\<lparr>fi_enabled := en\<rparr>
      in if \<not> en then fi1\<lparr>fi_pausedRequests := []\<rparr> else fi1)"

definition fi_isEnabled :: "FetchInterceptor \<Rightarrow> bool" where
  "fi_isEnabled fi = fi_enabled fi"

definition rule_of_spec :: "string \<Rightarrow> RuleSpec \<Rightarrow> InterceptRule" where
  "rule_of_spec i n =
     \<lparr>r_id = i, r_pattern = n_pattern n, r_resourceTypes = n_resourceTypes n,
      r_action = n_action n, r_modifyHeaders = n_modifyHeaders n, r_modifyUrl = n_modifyUrl n,
      r_mockResponse = n_mockResponse n, r_failReason = n_failReason n,
      r_enabled = (case n_enabled n of None \<Rightarrow> True | Some b \<Rightarrow> b)\<rparr>"

definition addRule :: "RuleSpec \<Rightarrow> FetchInterceptor \<Rightarrow> string \<times> FetchInterceptor" where
  "addRule n fi =
     (let c = fi_ruleIdCounter fi + 1;
          i = ''rule-'' @ show_nat c
      in (i, fi\<lparr>fi_ruleIdCounter := c,
                fi_objects := fi_objects fi @ [rule_of_spec i n],
                fi_rules := Map_set (fi_rules fi) i (length (fi_objects fi))\<rparr>))"

definition removeRule :: "string \<Rightarrow> FetchInterceptor \<Rightarrow> bool \<times> FetchInterceptor" where
  "removeRule ruleId fi =
     (Map_has (fi_rules fi) ruleId, fi\<lparr>fi_rules := Map_delete (fi_rules fi) ruleId\<rparr>)"

definition getRule :: "FetchInterceptor \<Rightarrow> string \<Rightarrow> InterceptRule option" where
  "getRule fi ruleId =
     (case Map_get (fi_rules fi) ruleId of None \<Rightarrow> None | Some a \<Rightarrow> deref (fi_objects fi) a)"

definition getAllRules :: "FetchInterceptor \<Rightarrow> InterceptRule list" where
  "getAllRules fi = List.map_filter (deref (fi_objects fi)) (Map_values (fi_rules fi))"

definition assign_updates :: "InterceptRule \<Rightarrow> RuleUpdates \<Rightarrow> InterceptRule" where
  "assign_updates r u =
     r\<lparr>r_pattern := (case u_pattern u of None \<Rightarrow> r_pattern r | Some v \<Rightarrow> v),
       r_resourceTypes := (case u_resourceTypes u of None \<Rightarrow> r_resourceTypes r | Some v \<Rightarrow> v),
       r_action := (case u_action u of None \<Rightarrow> r_action r | Some v \<Rightarrow> v),
       r_modifyHeaders := (case u_modifyHeaders u of None \<Rightarrow> r_modifyHeaders r | Some v \<Rightarrow> v),
       r_modifyUrl := (case u_modifyUrl u of None \<Rightarrow> r_modifyUrl r | Some v \<Rightarrow> v),
       r_mockResponse := (case u_mockResponse u of None \<Rightarrow> r_mockResponse r | Some v \<Rightarrow> v),
       r_failReason := (case u_failReason u of None \<Rightarrow> r_failReason r | Some v \<Rightarrow> v),
       r_enabled := (case u_enabled u of None \<Rightarrow> r_enabled r | Some v \<Rightarrow> v)\<rparr>"

definition updateRule :: "string \<Rightarrow> RuleUpdates \<Rightarrow> FetchInterceptor \<Rightarrow> bool \<times> FetchInterceptor" where
  "updateRule ruleId u fi =
     (case Map_get (fi_rules fi) ruleId of
        None \<Rightarrow> (False, fi)
      | Some a \<Rightarrow>
          (True, fi\<lparr>fi_objects := (fi_objects fi)[a := assign_updates (fi_objects fi ! a) u]\<rparr>))"

definition enableRule :: "string \<Rightarrow> bool \<Rightarrow> FetchInterceptor \<Rightarrow> bool \<times> FetchInterceptor" where
  "enableRule ruleId en fi =
     (case Map_get (fi_rules fi) ruleId of
        None \<Rightarrow> (False, fi)
      | Some a \<Rightarrow>
          (True, fi\<lparr>fi_objects := (fi_objects fi)[a := (fi_objects fi ! a)\<lparr>r_enabled := en\<rparr>]\<rparr>))"

definition clearRules :: "FetchInterceptor \<Rightarrow> FetchInterceptor" where
  "clearRules fi = fi\<lparr>fi_rules := []\<rparr>"

text \<open>
  \<open>matchesPattern\<close>: the regex branch is inside \<open>try\<close>/\<open>catch\<close> and answers \<open>false\<close> when
  the constructor throws; the glob branch has no \<open>try\<close>, so an error of the constructor
  there would propagate.
\<close>

definition matchesPattern :: "RegExp_ctor \<Rightarrow> string \<Rightarrow> string \<Rightarrow> js_error + bool" where
  "matchesPattern rx url pattern =
     (if pattern = ''*'' then Inr True
      else if startsWith_slash pattern \<and> endsWith_slash pattern then
        (case rx (slice_1_m1 pattern) of None \<Rightarrow> Inr False | Some regex \<Rightarrow> Inr (regex url))
      else
        (case rx (''^'' @ glob_escaped pattern @ ''$'') of
           None \<Rightarrow> Inl SyntaxError
         | Some regex \<Rightarrow> Inr (regex url)))"

text \<open>The values of the rule map, each with its reference, in the order of the map.\<close>

definition rule_values :: "FetchInterceptor \<Rightarrow> (rule_ref \<times> InterceptRule) list" where
  "rule_values fi =
     List.map_filter (\<lambda>a. map_option (\<lambda>r. (a, r)) (deref (fi_objects fi) a)) (Map_values (fi_rules fi))"

text \<open>\<open>findMatchingRule\<close> returns the rule object itself, that is, its reference.\<close>

fun findMatchingRule_loop ::
  "RegExp_ctor \<Rightarrow> (rule_ref \<times> InterceptRule) list \<Rightarrow> string \<Rightarrow> ResourceType
     \<Rightarrow> js_error + rule_ref option" where
  "findMatchingRule_loop rx [] url rt = Inr None"
| "findMatchingRule_loop rx ((a, rule) # rest) url rt =
     (if \<not> r_enabled rule then findMatchingRule_loop rx rest url rt
      else if (case r_resourceTypes rule of None \<Rightarrow> False
               | Some ts \<Rightarrow> length ts > 0 \<and> rt \<notin> set ts)
        then findMatchingRule_loop rx rest url rt
      else (case matchesPattern rx url (r_pattern rule) of
              Inl e \<Rightarrow> Inl e
            | Inr True \<Rightarrow> Inr (Some a)
            | Inr False \<Rightarrow> findMatchingRule_loop rx rest url rt))"

definition findMatchingRule ::
  "RegExp_ctor \<Rightarrow> FetchInterceptor \<Rightarrow> string \<Rightarrow> ResourceType \<Rightarrow> js_error + rule_ref option" where
  "findMatchingRule rx fi url rt = findMatchingRule_loop rx (rule_values fi) url rt"

text \<open>
  \<open>onRequestPaused\<close>; \<open>now\<close> is the value of \<open>Date.now()\<close>. \<open>matchedRule\<close> is the object
  that \<open>findMatchingRule\<close> returned, not a copy of it.
\<close>

definition onRequestPaused ::
  "RegExp_ctor \<Rightarrow> nat \<Rightarrow> FetchRequestPaused \<Rightarrow> FetchInterceptor
     \<Rightarrow> js_error + (PausedRequest \<times> FetchInterceptor)" where
  "onRequestPaused rx now ev fi =
     (case findMatchingRule rx fi (rq_url (fp_request ev)) (fp_resourceType ev) of
        Inl e \<Rightarrow> Inl e
      | Inr matched \<Rightarrow>
          (let pausedReq =
                 \<lparr>p_requestId = fp_requestId ev, p_url = rq_url (fp_request ev),
                  p_method = rq_method (fp_request ev), p_resourceType = fp_resourceType ev,
                  p_headers = rq_headers (fp_request ev), p_postData = rq_postData (fp_request ev),
                  p_timestamp = now, p_matchedRule = matched\<rparr>
           in Inr (pausedReq,
                   fi\<lparr>fi_pausedRequests := Map_set (fi_pausedRequests fi) (fp_requestId ev) pausedReq\<rparr>)))"

definition getPausedRequest :: "FetchInterceptor \<Rightarrow> string \<Rightarrow> PausedRequest option" where
  "getPausedRequest fi requestId = Map_get (fi_pausedRequests fi) requestId"

definition getAllPausedRequests :: "FetchInterceptor \<Rightarrow> PausedRequest list" where
  "getAllPausedRequests fi = Map_values (fi_pausedRequests fi)"

text \<open>What reading \<open>pausedReq.matchedRule\<close> gives now: the rule object as it is at present.\<close>

definition matchedRule :: "FetchInterceptor \<Rightarrow> PausedRequest \<Rightarrow> InterceptRule option" where
  "matchedRule fi pausedReq =
     (case p_matchedRule pausedReq of None \<Rightarrow> None | Some a \<Rightarrow> deref (fi_objects fi) a)"

definition removePausedRequest :: "string \<Rightarrow> FetchInterceptor \<Rightarrow> FetchInterceptor" where
  "removePausedRequest requestId fi =
     fi\<lparr>fi_pausedRequests := Map_delete (fi_pausedRequests fi) requestId\<rparr>"

definition clearPausedRequests :: "FetchInterceptor \<Rightarrow> FetchInterceptor" where
  "clearPausedRequests fi = fi\<lparr>fi_pausedRequests := []\<rparr>"

record CDPPattern =
  cp_urlPattern :: string
  cp_resourceType :: "string option"
  cp_requestStage :: string

fun getCDPPatterns_types ::
  "string \<Rightarrow> ResourceType list \<Rightarrow> CDPPattern list \<times> string list \<Rightarrow> CDPPattern list \<times> string list" where
  "getCDPPatterns_types pat [] acc = acc"
| "getCDPPatterns_types pat (t # ts) (patterns, seen) =
     (let key = pat @ '':'' @ t
      in if key \<in> set seen then getCDPPatterns_types pat ts (patterns, seen)
         else getCDPPatterns_types pat ts
                (patterns @ [\<lparr>cp_urlPattern = pat, cp_resourceType = Some t,
                              cp_requestStage = ''Request''\<rparr>], key # seen))"

fun getCDPPatterns_loop ::
  "InterceptRule list \<Rightarrow> CDPPattern list \<times> string list \<Rightarrow> CDPPattern list \<times> string list" where
  "getCDPPatterns_loop [] acc = acc"
| "getCDPPatterns_loop (rule # rest) (patterns, seen) =
     (if \<not> r_enabled rule then getCDPPatterns_loop rest (patterns, seen)
      else (case r_resourceTypes rule of
              Some (t # ts) \<Rightarrow>
                getCDPPatterns_loop rest (getCDPPatterns_types (r_pattern rule) (t # ts) (patterns, seen))
            | _ \<Rightarrow>
                if r_pattern rule \<in> set seen then getCDPPatterns_loop rest (patterns, seen)
                else getCDPPatterns_loop rest
                       (patterns @ [\<lparr>cp_urlPattern = r_pattern rule, cp_resourceType = None,
                                     cp_requestStage = ''Request''\<rparr>], r_pattern rule # seen)))"

definition getCDPPatterns :: "FetchInterceptor \<Rightarrow> CDPPattern list" where
  "getCDPPatterns fi = fst (getCDPPatterns_loop (getAllRules fi) ([], []))"

definition encodeResponseBody :: "string \<Rightarrow> string" where
  "encodeResponseBody body = base64 body"

definition fi_reset :: "FetchInterceptor \<Rightarrow> FetchInterceptor" where
  "fi_reset fi = fi\<lparr>fi_rules := [], fi_pausedRequests := [], fi_ruleIdCounter := 0\<rparr>"

record FetchSummary =
  ruleCount :: nat
  enabledRules :: nat
  pausedRequests :: nat

definition fi_getSummary :: "FetchInterceptor \<Rightarrow> FetchSummary" where
  "fi_getSummary fi =
     \<lparr>ruleCount = Map_size (fi_rules fi),
      enabledRules = length (filter r_enabled (getAllRules fi)),
      pausedRequests = Map_size (fi_pausedRequests fi)\<rparr>"


section \<open>NetworkState (src/state/NetworkState.ts)\<close>

record ResponseData =
  rs_url :: string
  rs_status :: int
  rs_statusText :: string
  rs_headers :: headers
  rs_mimeType :: string
  rs_connectionReused :: bool
  rs_connectionId :: int
  rs_encodedDataLength :: real
  rs_timing :: "json option"
  rs_protocol :: "string option"
  rs_securityState :: string

record CollectedRequest =
  c_requestId :: string
  c_url :: string
  c_method :: string
  c_resourceType :: ResourceType
  c_status :: "int option"
  c_statusText :: "string option"
  c_mimeType :: "string option"
  c_startTime :: real
  c_endTime :: "real option"
  c_duration :: "real option"
  c_encodedDataLength :: "real option"
  c_request :: RequestData
  c_response :: "ResponseData option"
  c_failed :: "bool option"
  c_errorText :: "string option"
  c_canceled :: "bool option"
  c_responseBody :: "string option"
  c_responseBodyBase64 :: "bool option"


text \<open>
  \<open>maxRequests\<close> is whatever number \<open>setMaxRequests\<close> was given; the model takes the
  integers.
\<close>

record NetworkState =
  ns_requests :: "(string, CollectedRequest) js_map"
  ns_enabled :: bool
  ns_maxRequests :: int

definition NetworkState_new :: NetworkState where
  "NetworkState_new = \<lparr>ns_requests = [], ns_enabled = False, ns_maxRequests = 1000\<rparr>"

definition ns_clear :: "NetworkState \<Rightarrow> NetworkState" where
  "ns_clear ns = ns\<lparr>ns_requests := []\<rparr>"

definition ns_setEnabled :: "bool \<Rightarrow> NetworkState \<Rightarrow> NetworkState" where
  "ns_setEnabled en ns =
     (let ns1 = ns\<lparr>ns_enabled := en\<rparr> in if \<not> en then ns_clear ns1 else ns1)"

definition ns_isEnabled :: "NetworkState \<Rightarrow> bool" where
  "ns_isEnabled ns = ns_enabled ns"




definition getRequest :: "NetworkState \<Rightarrow> string \<Rightarrow> CollectedRequest option" where
  "getRequest ns requestId = Map_get (ns_requests ns) requestId"

definition getAllRequests :: "NetworkState \<Rightarrow> CollectedRequest list" where
  "getAllRequests ns = Map_values (ns_requests ns)"

text \<open>
  \<open>patternToRegex\<close> of NetworkState: no \<open>try\<close> around the constructor, and the glob is
  not anchored.
\<close>

definition ns_patternToRegex :: "RegExp_ctor \<Rightarrow> string \<Rightarrow> js_error + RegExp" where
  "ns_patternToRegex rx pattern =
     (if startsWith_slash pattern \<and> endsWith_slash pattern then
        (case rx (slice_1_m1 pattern) of None \<Rightarrow> Inl SyntaxError | Some regex \<Rightarrow> Inr regex)
      else
        (case rx (glob_escaped pattern) of None \<Rightarrow> Inl SyntaxError | Some regex \<Rightarrow> Inr regex))"

definition getRequestsByUrl :: "RegExp_ctor \<Rightarrow> NetworkState \<Rightarrow> string \<Rightarrow> js_error + CollectedRequest list" where
  "getRequestsByUrl rx ns urlPattern =
     (case ns_patternToRegex rx urlPattern of
        Inl e \<Rightarrow> Inl e
      | Inr regex \<Rightarrow> Inr (filter (\<lambda>r. regex (c_url r)) (getAllRequests ns)))"

definition getRequestsByType :: "NetworkState \<Rightarrow> ResourceType \<Rightarrow> CollectedRequest list" where
  "getRequestsByType ns t = filter (\<lambda>r. c_resourceType r = t) (getAllRequests ns)"

definition is_failed :: "CollectedRequest \<Rightarrow> bool" where
  "is_failed r = (c_failed r = Some True)"

definition has_endTime :: "CollectedRequest \<Rightarrow> bool" where
  "has_endTime r = (case c_endTime r of None \<Rightarrow> False | Some t \<Rightarrow> t \<noteq> 0)"

definition getFailedRequests :: "NetworkState \<Rightarrow> CollectedRequest list" where
  "getFailedRequests ns = filter is_failed (getAllRequests ns)"

definition getPendingRequests :: "NetworkState \<Rightarrow> CollectedRequest list" where
  "getPendingRequests ns = filter (\<lambda>r. \<not> has_endTime r \<and> \<not> is_failed r) (getAllRequests ns)"

definition getCount :: "NetworkState \<Rightarrow> nat" where
  "getCount ns = Map_size (ns_requests ns)"


record NetworkSummary =
  nsum_total :: nat
  nsum_completed :: nat
  nsum_failed :: nat
  nsum_pending :: nat

definition ns_getSummary :: "NetworkState \<Rightarrow> NetworkSummary" where
  "ns_getSummary ns =
     (let rs = Map_values (ns_requests ns)
      in \<lparr>nsum_total = Map_size (ns_requests ns),
          nsum_completed = length (filter (\<lambda>r. \<not> is_failed r \<and> has_endTime r) rs),
          nsum_failed = length (filter is_failed rs),
          nsum_pending = length (filter (\<lambda>r. \<not> is_failed r \<and> \<not> has_endTime r) rs)\<rparr>)"



section \<open>ScriptRegistry (src/state/ScriptRegistry.ts)\<close>

record ScriptInfo =
  si_scriptId :: string
  si_url :: string
  si_startLine :: int
  si_startColumn :: int
  si_endLine :: int
  si_endColumn :: int
  si_executionContextId :: int
  si_hash :: string
  si_isModule :: "bool option"
  si_length :: "int option"
  si_sourceMapURL :: "string option"
  si_hasSourceURL :: "bool option"

record ScriptRegistry =
  sr_scripts :: "(string, ScriptInfo) js_map"
  sr_urlToScriptIds :: "(string, string list) js_map"
  sr_sourceCache :: "(string, string) js_map"

definition ScriptRegistry_new :: ScriptRegistry where
  "ScriptRegistry_new = \<lparr>sr_scripts = [], sr_urlToScriptIds = [], sr_sourceCache = []\<rparr>"

definition Set_add :: "'a list \<Rightarrow> 'a \<Rightarrow> 'a list" where
  "Set_add xs x = (if x \<in> set xs then xs else xs @ [x])"

definition addScript :: "ScriptInfo \<Rightarrow> ScriptRegistry \<Rightarrow> ScriptRegistry" where
  "addScript script sr =
     (let sr1 = sr\<lparr>sr_scripts := Map_set (sr_scripts sr) (si_scriptId script) script\<rparr>
      in if si_url script \<noteq> [] then
           (let ids = (case Map_get (sr_urlToScriptIds sr) (si_url script) of
                         None \<Rightarrow> [] | Some ids \<Rightarrow> ids)
            in sr1\<lparr>sr_urlToScriptIds :=
                      Map_set (sr_urlToScriptIds sr) (si_url script) (Set_add ids (si_scriptId script))\<rparr>)
         else sr1)"

definition getScript :: "ScriptRegistry \<Rightarrow> string \<Rightarrow> ScriptInfo option" where
  "getScript sr scriptId = Map_get (sr_scripts sr) scriptId"

definition getScriptsByUrl :: "ScriptRegistry \<Rightarrow> string \<Rightarrow> ScriptInfo list" where
  "getScriptsByUrl sr url =
     (case Map_get (sr_urlToScriptIds sr) url of
        None \<Rightarrow> []
      | Some ids \<Rightarrow> List.map_filter (\<lambda>i. Map_get (sr_scripts sr) i) ids)"

text \<open>\<open>patternToRegex\<close> of ScriptRegistry: no \<open>try\<close> around the constructor; anchored glob.\<close>

definition sr_patternToRegex :: "RegExp_ctor \<Rightarrow> string \<Rightarrow> js_error + RegExp" where
  "sr_patternToRegex rx pattern =
     (if startsWith_slash pattern \<and> endsWith_slash pattern then
        (case rx (slice_1_m1 pattern) of None \<Rightarrow> Inl SyntaxError | Some regex \<Rightarrow> Inr regex)
      else
        (case rx (''^'' @ glob_escaped pattern @ ''$'') of
           None \<Rightarrow> Inl SyntaxError
         | Some regex \<Rightarrow> Inr regex))"

definition findScriptsByUrlPattern :: "RegExp_ctor \<Rightarrow> ScriptRegistry \<Rightarrow> string \<Rightarrow> js_error + ScriptInfo list" where
  "findScriptsByUrlPattern rx sr pattern =
     (case sr_patternToRegex rx pattern of
        Inl e \<Rightarrow> Inl e
      | Inr regex \<Rightarrow>
          Inr (filter (\<lambda>script. si_url script \<noteq> [] \<and> regex (si_url script))
                 (Map_values (sr_scripts sr))))"

definition getAllScripts :: "ScriptRegistry \<Rightarrow> ScriptInfo list" where
  "getAllScripts sr = Map_values (sr_scripts sr)"

definition getScriptCount :: "ScriptRegistry \<Rightarrow> nat" where
  "getScriptCount sr = Map_size (sr_scripts sr)"

definition matchesUrl :: "RegExp_ctor \<Rightarrow> string \<Rightarrow> string \<Rightarrow> js_error + bool" where
  "matchesUrl rx url pattern =
     (case sr_patternToRegex rx pattern of Inl e \<Rightarrow> Inl e | Inr regex \<Rightarrow> Inr (regex url))"

definition sr_clear :: "ScriptRegistry \<Rightarrow> ScriptRegistry" where
  "sr_clear sr = \<lparr>sr_scripts = [], sr_urlToScriptIds = [], sr_sourceCache = []\<rparr>"

section \<open>ConsoleState (src/state/ConsoleState.ts)\<close>

record CollectedConsoleMessage =
  m_id :: nat
  m_type :: string
  m_level :: string
  m_text :: string
  m_args :: "json list option"
  m_url :: "string option"
  m_line :: "int option"
  m_column :: "int option"
  m_stackTrace :: "json option"
  m_timestamp :: real
  m_executionContextId :: "int option"

record CollectedException =
  e_id :: nat
  e_timestamp :: real
  e_details :: json

record ConsoleState =
  cs_messages :: "CollectedConsoleMessage list"
  cs_exceptions :: "CollectedException list"
  cs_enabled :: bool
  cs_maxMessages :: int
  cs_messageIdCounter :: nat
  cs_exceptionIdCounter :: nat

definition ConsoleState_new :: ConsoleState where
  "ConsoleState_new =
     \<lparr>cs_messages = [], cs_exceptions = [], cs_enabled = False, cs_maxMessages = 1000,
      cs_messageIdCounter = 0, cs_exceptionIdCounter = 0\<rparr>"

definition cs_clear :: "ConsoleState \<Rightarrow> ConsoleState" where
  "cs_clear cs = cs\<lparr>cs_messages := [], cs_exceptions := []\<rparr>"

definition cs_setEnabled :: "bool \<Rightarrow> ConsoleState \<Rightarrow> ConsoleState" where
  "cs_setEnabled en cs =
     (let cs1 = cs\<lparr>cs_enabled := en\<rparr> in if \<not> en then cs_clear cs1 else cs1)"

definition cs_isEnabled :: "ConsoleState \<Rightarrow> bool" where
  "cs_isEnabled cs = cs_enabled cs"

definition addMessage :: "CollectedConsoleMessage \<Rightarrow> ConsoleState \<Rightarrow> ConsoleState" where
  "addMessage msg cs =
     (let ms = (if int (length (cs_messages cs)) \<ge> cs_maxMessages cs
                then tl (cs_messages cs) else cs_messages cs)
      in cs\<lparr>cs_messages := ms @ [msg]\<rparr>)"

definition addException :: "CollectedException \<Rightarrow> ConsoleState \<Rightarrow> ConsoleState" where
  "addException exc cs =
     (let es = (if int (length (cs_exceptions cs)) \<ge> cs_maxMessages cs
                then tl (cs_exceptions cs) else cs_exceptions cs)
      in cs\<lparr>cs_exceptions := es @ [exc]\<rparr>)"

definition onExceptionThrown :: "real \<Rightarrow> json \<Rightarrow> ConsoleState \<Rightarrow> CollectedException \<times> ConsoleState" where
  "onExceptionThrown timestamp details cs =
     (let n = cs_exceptionIdCounter cs + 1;
          exc = \<lparr>e_id = n, e_timestamp = timestamp, e_details = details\<rparr>
      in (exc, addException exc (cs\<lparr>cs_exceptionIdCounter := n\<rparr>)))"

definition getMessages :: "ConsoleState \<Rightarrow> CollectedConsoleMessage list" where
  "getMessages cs = cs_messages cs"

definition getMessagesByLevel :: "ConsoleState \<Rightarrow> string \<Rightarrow> CollectedConsoleMessage list" where
  "getMessagesByLevel cs level = filter (\<lambda>m. m_level m = level) (cs_messages cs)"

definition getMessagesByType :: "ConsoleState \<Rightarrow> string \<Rightarrow> CollectedConsoleMessage list" where
  "getMessagesByType cs t = filter (\<lambda>m. m_type m = t) (cs_messages cs)"

definition getErrors :: "ConsoleState \<Rightarrow> CollectedConsoleMessage list" where
  "getErrors cs = getMessagesByLevel cs ''error''"

definition getWarnings :: "ConsoleState \<Rightarrow> CollectedConsoleMessage list" where
  "getWarnings cs = getMessagesByLevel cs ''warning''"

definition getExceptions :: "ConsoleState \<Rightarrow> CollectedException list" where
  "getExceptions cs = cs_exceptions cs"

definition getMessageCount :: "ConsoleState \<Rightarrow> nat" where
  "getMessageCount cs = length (cs_messages cs)"

definition getExceptionCount :: "ConsoleState \<Rightarrow> nat" where
  "getExceptionCount cs = length (cs_exceptions cs)"

record ConsoleSummary =
  csum_total :: nat
  csum_errors :: nat
  csum_warnings :: nat
  csum_exceptions :: nat

definition cs_getSummary :: "ConsoleState \<Rightarrow> ConsoleSummary" where
  "cs_getSummary cs =
     \<lparr>csum_total = length (cs_messages cs),
      csum_errors = length (filter (\<lambda>m. m_level m = ''error'') (cs_messages cs)),
      csum_warnings = length (filter (\<lambda>m. m_level m = ''warning'') (cs_messages cs)),
      csum_exceptions = length (cs_exceptions cs)\<rparr>"

section \<open>DebugState (src/state/DebugState.ts)\<close>

record Location =
  l_scriptId :: string
  l_lineNumber :: int
  l_columnNumber :: "int option"

record CallFrame =
  cf_callFrameId :: string
  cf_functionName :: string
  cf_functionLocation :: "Location option"
  cf_location :: Location
  cf_url :: string
  cf_scopeChain :: json
  cf_this :: json
  cf_returnValue :: "json option"

record PauseState =
  ps_isPaused :: bool
  ps_reason :: "string option"
  ps_callFrames :: "CallFrame list option"
  ps_data :: "json option"
  ps_asyncStackTrace :: "json option"
  ps_hitBreakpoints :: "string list option"

record ManagedBreakpoint =
  b_id :: string
  b_url :: "string option"
  b_urlRegex :: "string option"
  b_scriptId :: "string option"
  b_lineNumber :: int
  b_columnNumber :: "int option"
  b_condition :: "string option"
  b_locations :: "Location list"
  b_enabled :: bool

datatype PauseOnExceptionsState = poe_none | poe_uncaught | poe_all

record DebugState =
  ds_pauseState :: PauseState
  ds_breakpoints :: "(string, ManagedBreakpoint) js_map"
  ds_pauseOnExceptions :: PauseOnExceptionsState
  ds_enabled :: bool
  ds_asyncStackTraceDepth :: int
  ds_lastException :: "json option"

definition not_paused :: PauseState where
  "not_paused =
     \<lparr>ps_isPaused = False, ps_reason = None, ps_callFrames = None, ps_data = None,
      ps_asyncStackTrace = None, ps_hitBreakpoints = None\<rparr>"

definition DebugState_new :: DebugState where
  "DebugState_new =
     \<lparr>ds_pauseState = not_paused, ds_breakpoints = [], ds_pauseOnExceptions = poe_none,
      ds_enabled = False, ds_asyncStackTraceDepth = 0, ds_lastException = None\<rparr>"

definition setPaused ::
  "string \<Rightarrow> CallFrame list \<Rightarrow> json option \<Rightarrow> json option \<Rightarrow> string list option
     \<Rightarrow> DebugState \<Rightarrow> DebugState" where
  "setPaused reason callFrames data asyncStackTrace hitBreakpoints ds =
     ds\<lparr>ds_pauseState :=
          \<lparr>ps_isPaused = True, ps_reason = Some reason, ps_callFrames = Some callFrames,
           ps_data = data, ps_asyncStackTrace = asyncStackTrace,
           ps_hitBreakpoints = hitBreakpoints\<rparr>\<rparr>"

definition setResumed :: "DebugState \<Rightarrow> DebugState" where
  "setResumed ds = ds\<lparr>ds_pauseState := not_paused\<rparr>"

definition getPauseState :: "DebugState \<Rightarrow> PauseState" where
  "getPauseState ds = ds_pauseState ds"

definition isPaused :: "DebugState \<Rightarrow> bool" where
  "isPaused ds = ps_isPaused (ds_pauseState ds)"

definition getCallFrames :: "DebugState \<Rightarrow> CallFrame list" where
  "getCallFrames ds = (case ps_callFrames (ds_pauseState ds) of None \<Rightarrow> [] | Some fs \<Rightarrow> fs)"

text \<open>\<open>this.pauseState.callFrames?.[index]\<close>, for an integer index.\<close>

definition getCallFrame :: "DebugState \<Rightarrow> int \<Rightarrow> CallFrame option" where
  "getCallFrame ds index =
     (case ps_callFrames (ds_pauseState ds) of
        None \<Rightarrow> None
      | Some fs \<Rightarrow> if 0 \<le> index \<and> index < int (length fs) then Some (fs ! nat index) else None)"

definition getTopCallFrame :: "DebugState \<Rightarrow> CallFrame option" where
  "getTopCallFrame ds = getCallFrame ds 0"

definition addBreakpoint :: "ManagedBreakpoint \<Rightarrow> DebugState \<Rightarrow> DebugState" where
  "addBreakpoint bp ds = ds\<lparr>ds_breakpoints := Map_set (ds_breakpoints ds) (b_id bp) bp\<rparr>"

definition removeBreakpoint :: "string \<Rightarrow> DebugState \<Rightarrow> bool \<times> DebugState" where
  "removeBreakpoint breakpointId ds =
     (Map_has (ds_breakpoints ds) breakpointId,
      ds\<lparr>ds_breakpoints := Map_delete (ds_breakpoints ds) breakpointId\<rparr>)"

definition getBreakpoint :: "DebugState \<Rightarrow> string \<Rightarrow> ManagedBreakpoint option" where
  "getBreakpoint ds breakpointId = Map_get (ds_breakpoints ds) breakpointId"

definition getAllBreakpoints :: "DebugState \<Rightarrow> ManagedBreakpoint list" where
  "getAllBreakpoints ds = Map_values (ds_breakpoints ds)"

definition updateBreakpointLocations :: "string \<Rightarrow> Location list \<Rightarrow> DebugState \<Rightarrow> DebugState" where
  "updateBreakpointLocations breakpointId locations ds =
     (case Map_get (ds_breakpoints ds) breakpointId of
        None \<Rightarrow> ds
      | Some bp \<Rightarrow>
          ds\<lparr>ds_breakpoints := Map_set (ds_breakpoints ds) breakpointId (bp\<lparr>b_locations := locations\<rparr>)\<rparr>)"

definition location_matches :: "string \<Rightarrow> int \<Rightarrow> int option \<Rightarrow> Location \<Rightarrow> bool" where
  "location_matches scriptId lineNumber columnNumber loc =
     (l_scriptId loc = scriptId \<and> l_lineNumber loc = lineNumber \<and>
      (columnNumber = None \<or> l_columnNumber loc = columnNumber))"

definition findBreakpointByLocation ::
  "DebugState \<Rightarrow> string \<Rightarrow> int \<Rightarrow> int option \<Rightarrow> ManagedBreakpoint option" where
  "findBreakpointByLocation ds scriptId lineNumber columnNumber =
     find (\<lambda>bp. list_ex (location_matches scriptId lineNumber columnNumber) (b_locations bp))
       (Map_values (ds_breakpoints ds))"

definition getPauseOnExceptions :: "DebugState \<Rightarrow> PauseOnExceptionsState" where
  "getPauseOnExceptions ds = ds_pauseOnExceptions ds"

definition getLastException :: "DebugState \<Rightarrow> json option" where
  "getLastException ds = ds_lastException ds"

definition getAsyncStackTraceDepth :: "DebugState \<Rightarrow> int" where
  "getAsyncStackTraceDepth ds = ds_asyncStackTraceDepth ds"

definition ds_reset :: "DebugState \<Rightarrow> DebugState" where
  "ds_reset ds =
     ds\<lparr>ds_pauseState := not_paused, ds_breakpoints := [], ds_pauseOnExceptions := poe_none,
        ds_asyncStackTraceDepth := 0, ds_lastException := None\<rparr>"

definition ds_setEnabled :: "bool \<Rightarrow> DebugState \<Rightarrow> DebugState" where
  "ds_setEnabled en ds =
     (let ds1 = ds\<lparr>ds_enabled := en\<rparr> in if \<not> en then ds_reset ds1 else ds1)"

definition ds_isEnabled :: "DebugState \<Rightarrow> bool" where
  "ds_isEnabled ds = ds_enabled ds"

record DebugStateJSON =
  j_enabled :: bool
  j_isPaused :: bool
  j_pauseReason :: "string option"
  j_callFrameCount :: nat
  j_breakpointCount :: nat
  j_pauseOnExceptions :: PauseOnExceptionsState
  j_asyncStackTraceDepth :: int

definition toJSON :: "DebugState \<Rightarrow> DebugStateJSON" where
  "toJSON ds =
     \<lparr>j_enabled = ds_enabled ds, j_isPaused = ps_isPaused (ds_pauseState ds),
      j_pauseReason = ps_reason (ds_pauseState ds),
      j_callFrameCount = (case ps_callFrames (ds_pauseState ds) of None \<Rightarrow> 0 | Some fs \<Rightarrow> length fs),
      j_breakpointCount = Map_size (ds_breakpoints ds),
      j_pauseOnExceptions = ds_pauseOnExceptions ds,
      j_asyncStackTraceDepth = ds_asyncStackTraceDepth ds\<rparr>"


section \<open>CDPClient (src/cdp-client.ts)\<close>

text \<open>
  The transport. Besides the fields of the class, the record holds what the class acts on:
  the one-shot timers that are armed (keyed by the request id their callback closes over,
  with the method it closes over), the frames written to the socket, and a log of every
  call of a \<open>resolve\<close> or \<open>reject\<close> of a promise returned by \<open>send\<close>, with the id of
  that \<open>send\<close> and the path that made the call.
\<close>

record PendingRequest =
  pr_method :: string

record CDPError =
  err_code :: int
  err_message :: string
  err_data :: "json option"

record CDPResponse =
  rsp_id :: nat
  rsp_result :: "json option"
  rsp_error :: "CDPError option"

record CDPRequest =
  req_id :: nat
  req_method :: string
  req_params :: "json option"
  req_sessionId :: "string option"

datatype outcome =
    ResponseDelivered "json option"
  | ProtocolErrorReturned js_error
  | TimedOut js_error
  | DisconnectError js_error

record CDPClient =
  cl_ws :: bool
  cl_requestId :: nat
  cl_pendingRequests :: "(nat, PendingRequest) js_map"
  cl_sessionId :: "string option"
  cl_timeout :: nat
  cl_connected :: bool
  cl_timers :: "(nat, string) js_map"
  cl_wire :: "CDPRequest list"
  cl_settled :: "(nat \<times> outcome) list"

definition CDPClient_new :: "nat \<Rightarrow> CDPClient" where
  "CDPClient_new timeout =
     \<lparr>cl_ws = False, cl_requestId = 0, cl_pendingRequests = [], cl_sessionId = None,
      cl_timeout = timeout, cl_connected = False, cl_timers = [], cl_wire = [],
      cl_settled = []\<rparr>"

definition truthy_string :: "string option \<Rightarrow> bool" where
  "truthy_string s = (case s of None \<Rightarrow> False | Some v \<Rightarrow> v \<noteq> [])"

text \<open>
  \<open>send\<close> up to the point where it returns its promise: the id is taken, the timer armed,
  the slot registered and the frame written. It throws when not connected.
\<close>

definition send :: "string \<Rightarrow> json option \<Rightarrow> CDPClient \<Rightarrow> js_error + (nat \<times> CDPClient)" where
  "send method params c =
     (if \<not> cl_ws c \<or> \<not> cl_connected c then Inl (Error ''Not connected'')
      else
        (let i = cl_requestId c + 1;
             request = \<lparr>req_id = i, req_method = method, req_params = params,
                        req_sessionId = (if truthy_string (cl_sessionId c) then cl_sessionId c else None)\<rparr>
         in Inr (i, c\<lparr>cl_requestId := i,
                       cl_timers := Map_set (cl_timers c) i method,
                       cl_pendingRequests := Map_set (cl_pendingRequests c) i \<lparr>pr_method = method\<rparr>,
                       cl_wire := cl_wire c @ [request]\<rparr>)))"

definition handleResponse :: "CDPResponse \<Rightarrow> CDPClient \<Rightarrow> CDPClient" where
  "handleResponse response c =
     (case Map_get (cl_pendingRequests c) (rsp_id response) of
        None \<Rightarrow> c
      | Some pending \<Rightarrow>
          (let c1 = c\<lparr>cl_timers := Map_delete (cl_timers c) (rsp_id response),
                       cl_pendingRequests := Map_delete (cl_pendingRequests c) (rsp_id response)\<rparr>
           in case rsp_error response of
                Some e \<Rightarrow>
                  c1\<lparr>cl_settled := cl_settled c1 @
                        [(rsp_id response, ProtocolErrorReturned (CDPClientError (err_code e) (err_message e)))]\<rparr>
              | None \<Rightarrow>
                  c1\<lparr>cl_settled := cl_settled c1 @
                        [(rsp_id response, ResponseDelivered (rsp_result response))]\<rparr>))"

definition timeout_message :: "string \<Rightarrow> nat \<Rightarrow> string" where
  "timeout_message method i = ''Request timeout: '' @ method @ '' ('' @ show_nat i @ '')''"

text \<open>
  The callback of the timer armed by \<open>send\<close> for request \<open>i\<close>. A timer that was cleared, or
  has fired, does not run it.
\<close>

definition timer_fires :: "nat \<Rightarrow> CDPClient \<Rightarrow> CDPClient" where
  "timer_fires i c =
     (case Map_get (cl_timers c) i of
        None \<Rightarrow> c
      | Some method \<Rightarrow>
          c\<lparr>cl_timers := Map_delete (cl_timers c) i,
            cl_pendingRequests := Map_delete (cl_pendingRequests c) i,
            cl_settled := cl_settled c @ [(i, TimedOut (Error (timeout_message method i)))]\<rparr>)"

fun clear_timers :: "nat list \<Rightarrow> (nat, string) js_map \<Rightarrow> (nat, string) js_map" where
  "clear_timers [] ts = ts"
| "clear_timers (i # is) ts = clear_timers is (Map_delete ts i)"

definition rejectAllPending :: "js_error \<Rightarrow> CDPClient \<Rightarrow> CDPClient" where
  "rejectAllPending e c =
     c\<lparr>cl_timers := clear_timers (Map_keys (cl_pendingRequests c)) (cl_timers c),
       cl_settled := cl_settled c @ map (\<lambda>i. (i, DisconnectError e)) (Map_keys (cl_pendingRequests c)),
       cl_pendingRequests := []\<rparr>"

definition disconnect :: "CDPClient \<Rightarrow> CDPClient" where
  "disconnect c =
     (if cl_ws c then rejectAllPending (Error ''Disconnected'') (c\<lparr>cl_ws := False, cl_connected := False\<rparr>)
      else c)"

definition ws_on_close :: "CDPClient \<Rightarrow> CDPClient" where
  "ws_on_close c = rejectAllPending (Error ''Connection closed'') (c\<lparr>cl_connected := False\<rparr>)"

definition ws_on_open :: "CDPClient \<Rightarrow> CDPClient" where
  "ws_on_open c = c\<lparr>cl_connected := True\<rparr>"

definition connect :: "CDPClient \<Rightarrow> js_error + CDPClient" where
  "connect c = (if cl_connected c then Inl (Error ''Already connected'') else Inr (c\<lparr>cl_ws := True\<rparr>))"

definition setSessionId :: "string option \<Rightarrow> CDPClient \<Rightarrow> CDPClient" where
  "setSessionId sid c = c\<lparr>cl_sessionId := sid\<rparr>"

text \<open>
  Everything that can happen to a client, one at a time, in any order: calls of its
  methods, events of the socket, inbound response frames and timers firing.
\<close>

datatype client_event =
    Connect
  | WsOpen
  | WsClose
  | Disconnect
  | SetSessionId "string option"
  | Send string "json option"
  | Response CDPResponse
  | TimerFires nat

fun client_step :: "client_event \<Rightarrow> CDPClient \<Rightarrow> CDPClient" where
  "client_step Connect c = (case connect c of Inl e \<Rightarrow> c | Inr c' \<Rightarrow> c')"
| "client_step WsOpen c = ws_on_open c"
| "client_step WsClose c = ws_on_close c"
| "client_step Disconnect c = disconnect c"
| "client_step (SetSessionId sid) c = setSessionId sid c"
| "client_step (Send method params) c = (case send method params c of Inl e \<Rightarrow> c | Inr (i, c') \<Rightarrow> c')"
| "client_step (Response r) c = handleResponse r c"
| "client_step (TimerFires i) c = timer_fires i c"

fun client_run :: "client_event list \<Rightarrow> CDPClient \<Rightarrow> CDPClient" where
  "client_run [] c = c"
| "client_run (e # es) c = client_run es (client_step e c)"

definition settlements :: "CDPClient \<Rightarrow> nat \<Rightarrow> outcome list" where
  "settlements c i = map snd (filter (\<lambda>p. fst p = i) (cl_settled c))"

text \<open>
  An awaited call: \<open>await this.client.send(method, params)\<close> together with the way its
  promise settles: a response frame with a result or with an error, the timer, the close
  event of the socket, or the rejection made by \<open>CDPClient.disconnect()\<close>. Events that the
  engine handles between the send and the reply are steps of their own.

  \<open>CDPClient.disconnect()\<close> is called by the facade only. \<open>DebugSession.disconnect()\<close>
  calls it and then \<open>reset()\<close> in one synchronous run (as does \<open>kill()\<close> when no browser
  was launched), so the operation that awaits the call resumes after the reset:
  \<open>Reply_disconnect\<close>. \<open>DebugSession.kill()\<close> of a launched browser calls it and then awaits
  the launcher, so the awaiting operation resumes before the reset, which is a later step:
  \<open>Reply_kill\<close>. For the transport the two are the same.
\<close>

datatype reply =
    Reply_result "json option"
  | Reply_error CDPError
  | Reply_timeout
  | Reply_closed
  | Reply_disconnect
  | Reply_kill

definition call :: "string \<Rightarrow> json option \<Rightarrow> reply \<Rightarrow> CDPClient \<Rightarrow> (js_error + json option) \<times> CDPClient" where
  "call method params rep c =
     (case send method params c of
        Inl e \<Rightarrow> (Inl e, c)
      | Inr (i, c1) \<Rightarrow>
          (case rep of
             Reply_result r \<Rightarrow>
               (Inr r, handleResponse \<lparr>rsp_id = i, rsp_result = r, rsp_error = None\<rparr> c1)
           | Reply_error e \<Rightarrow>
               (Inl (CDPClientError (err_code e) (err_message e)),
                handleResponse \<lparr>rsp_id = i, rsp_result = None, rsp_error = Some e\<rparr> c1)
           | Reply_timeout \<Rightarrow> (Inl (Error (timeout_message method i)), timer_fires i c1)
           | Reply_closed \<Rightarrow> (Inl (Error ''Connection closed''), ws_on_close c1)
           | Reply_disconnect \<Rightarrow> (Inl (Error ''Disconnected''), disconnect c1)
           | Reply_kill \<Rightarrow> (Inl (Error ''Disconnected''), disconnect c1)))"

section \<open>DebugSession (src/DebugSession.ts)\<close>

text \<open>
  The facade owns the transport and the five projections. Its log buffer, worker maps and
  cached document node are left out: no operation below reads or writes them.
\<close>

record DebugSession =
  s_client :: CDPClient
  s_debugState :: DebugState
  s_scriptRegistry :: ScriptRegistry
  s_networkState :: NetworkState
  s_fetchInterceptor :: FetchInterceptor
  s_consoleState :: ConsoleState

definition DebugSession_new :: "nat \<Rightarrow> DebugSession" where
  "DebugSession_new timeout =
     \<lparr>s_client = CDPClient_new timeout, s_debugState = DebugState_new,
      s_scriptRegistry = ScriptRegistry_new, s_networkState = NetworkState_new,
      s_fetchInterceptor = FetchInterceptor_new, s_consoleState = ConsoleState_new\<rparr>"

text \<open>\<open>reset()\<close> of the facade, on the projections.\<close>

definition session_reset :: "DebugSession \<Rightarrow> DebugSession" where
  "session_reset s =
     s\<lparr>s_debugState := ds_reset (s_debugState s),
       s_scriptRegistry := sr_clear (s_scriptRegistry s),
       s_networkState := ns_clear (s_networkState s),
       s_fetchInterceptor := fi_reset (s_fetchInterceptor s),
       s_consoleState := cs_clear (s_consoleState s)\<rparr>"

text \<open>
  \<open>await this.client.send(method, params)\<close> inside an operation of the facade: what the
  promise settles with, and the session on which the operation resumes.
\<close>

definition await_send ::
  "string \<Rightarrow> json option \<Rightarrow> reply \<Rightarrow> DebugSession \<Rightarrow> (js_error + json option) \<times> DebugSession" where
  "await_send method params rep s =
     (case send method params (s_client s) of
        Inl e \<Rightarrow> (Inl e, s)
      | Inr issued \<Rightarrow>
          (case call method params rep (s_client s) of
             (res, c') \<Rightarrow>
               (res, (case rep of
                        Reply_disconnect \<Rightarrow> session_reset (s\<lparr>s_client := c'\<rparr>)
                      | _ \<Rightarrow> s\<lparr>s_client := c'\<rparr>))))"

text \<open>\<open>new PausedError(reason)\<close> (src/utils/timeout.ts): the message it builds.\<close>

definition PausedError_new :: "string option \<Rightarrow> js_error" where
  "PausedError_new reason =
     PausedError (''Execution blocked: debugger is paused'' @
                  (if truthy_string reason then '' ('' @ the reason @ '')'' else []))"

text \<open>
  The events of the router that are bound to DebugState. The handlers of every other
  method (scripts, console, network, fetch, log, workers, DOM, close) do not mention
  \<open>debugState\<close>.
\<close>

record PausedParams =
  pp_callFrames :: "CallFrame list"
  pp_reason :: string
  pp_data :: "json option"
  pp_hitBreakpoints :: "string list option"
  pp_asyncStackTrace :: "json option"

datatype debugger_event =
    Debugger_paused PausedParams
  | Debugger_resumed
  | Debugger_breakpointResolved string Location
  | Other_event string json

fun on_debugger_event :: "debugger_event \<Rightarrow> DebugState \<Rightarrow> DebugState" where
  "on_debugger_event (Debugger_paused p) ds =
     setPaused (pp_reason p) (pp_callFrames p) (pp_data p) (pp_asyncStackTrace p) (pp_hitBreakpoints p) ds"
| "on_debugger_event Debugger_resumed ds = setResumed ds"
| "on_debugger_event (Debugger_breakpointResolved breakpointId location) ds =
     updateBreakpointLocations breakpointId [location] ds"
| "on_debugger_event (Other_event method params) ds = ds"

fun on_debugger_events :: "debugger_event list \<Rightarrow> DebugState \<Rightarrow> DebugState" where
  "on_debugger_events [] ds = ds"
| "on_debugger_events (e # es) ds = on_debugger_events es (on_debugger_event e ds)"

text \<open>
  \<open>evaluate\<close>. After the call is issued either its promise settles first, or a
  \<open>Debugger.paused\<close> event is dispatched first: the router stores the pause and emits
  \<open>paused\<close>, which wins the race when the debugger is enabled (the call then stays
  outstanding in the transport); when the debugger is not enabled there is no race and
  the operation goes on waiting for the call.
\<close>

record EvaluateOptions =
  eo_objectGroup :: "string option"
  eo_contextId :: "int option"
  eo_returnByValue :: "bool option"
  eo_generatePreview :: "bool option"
  eo_awaitPromise :: "bool option"
  eo_timeout :: "int option"

datatype race = Call_settles reply | Paused_first PausedParams

datatype evaluate_result =
    Evaluated "json option"
  | Evaluate_paused string "CallFrame list"
  | Still_waiting nat

definition evaluate_params :: "string \<Rightarrow> EvaluateOptions \<Rightarrow> json" where
  "evaluate_params expression options =
     JObj [(''expression'', JStr expression),
           (''objectGroup'', JStr (case eo_objectGroup options of None \<Rightarrow> ''console'' | Some g \<Rightarrow> g)),
           (''returnByValue'', JBool (case eo_returnByValue options of None \<Rightarrow> False | Some b \<Rightarrow> b)),
           (''generatePreview'', JBool (case eo_generatePreview options of None \<Rightarrow> True | Some b \<Rightarrow> b)),
           (''awaitPromise'', JBool (case eo_awaitPromise options of None \<Rightarrow> False | Some b \<Rightarrow> b))]"

definition evaluate ::
  "string \<Rightarrow> EvaluateOptions \<Rightarrow> race \<Rightarrow> DebugSession \<Rightarrow> (js_error + evaluate_result) \<times> DebugSession" where
  "evaluate expression options rc s =
     (if isPaused (s_debugState s)
      then (Inl (PausedError_new (ps_reason (getPauseState (s_debugState s)))), s)
      else
        (case rc of
           Call_settles rep \<Rightarrow>
             (case await_send ''Runtime.evaluate'' (Some (evaluate_params expression options)) rep s of
                (Inl e, s') \<Rightarrow> (Inl e, s')
              | (Inr r, s') \<Rightarrow> (Inr (Evaluated r), s'))
         | Paused_first p \<Rightarrow>
             (case send ''Runtime.evaluate'' (Some (evaluate_params expression options)) (s_client s) of
                Inl e \<Rightarrow> (Inl e, s)
              | Inr (i, c') \<Rightarrow>
                  (let s' = s\<lparr>s_client := c',
                               s_debugState := on_debugger_event (Debugger_paused p) (s_debugState s)\<rparr>
                   in if ds_isEnabled (s_debugState s)
                      then (Inr (Evaluate_paused (pp_reason p) (pp_callFrames p)), s')
                      else (Inr (Still_waiting i), s')))))"

definition disableDebugger :: "reply \<Rightarrow> DebugSession \<Rightarrow> (js_error + unit) \<times> DebugSession" where
  "disableDebugger rep s =
     (case await_send ''Debugger.disable'' None rep s of
        (Inl e, s') \<Rightarrow> (Inl e, s')
      | (Inr r, s') \<Rightarrow>
          (Inr (), s'\<lparr>s_debugState := ds_setEnabled False (s_debugState s')\<rparr>))"

definition disableFetch :: "reply \<Rightarrow> DebugSession \<Rightarrow> (js_error + unit) \<times> DebugSession" where
  "disableFetch rep s =
     (case await_send ''Fetch.disable'' None rep s of
        (Inl e, s') \<Rightarrow> (Inl e, s')
      | (Inr r, s') \<Rightarrow>
          (Inr (), s'\<lparr>s_fetchInterceptor := fi_setEnabled False (s_fetchInterceptor s')\<rparr>))"

definition header_entries :: "headers \<Rightarrow> json" where
  "header_entries hs = JArr (map (\<lambda>(name, v). JObj [(''name'', JStr name), (''value'', JStr v)]) hs)"

record ContinueOptions =
  co_url :: "string option"
  co_method :: "string option"
  co_postData :: "string option"
  co_headers :: "headers option"

definition continue_params :: "string \<Rightarrow> ContinueOptions \<Rightarrow> json" where
  "continue_params requestId options =
     JObj ([(''requestId'', JStr requestId)]
           @ (if truthy_string (co_url options) then [(''url'', JStr (the (co_url options)))] else [])
           @ (if truthy_string (co_method options) then [(''method'', JStr (the (co_method options)))] else [])
           @ (if truthy_string (co_postData options) then [(''postData'', JStr (the (co_postData options)))] else [])
           @ (case co_headers options of None \<Rightarrow> [] | Some hs \<Rightarrow> [(''headers'', header_entries hs)]))"

definition continueRequest ::
  "string \<Rightarrow> ContinueOptions \<Rightarrow> reply \<Rightarrow> DebugSession \<Rightarrow> (js_error + unit) \<times> DebugSession" where
  "continueRequest requestId options rep s =
     (case await_send ''Fetch.continueRequest'' (Some (continue_params requestId options)) rep s of
        (Inl e, s') \<Rightarrow> (Inl e, s')
      | (Inr r, s') \<Rightarrow>
          (Inr (), s'\<lparr>s_fetchInterceptor := removePausedRequest requestId (s_fetchInterceptor s')\<rparr>))"

text \<open>
  The options object of \<open>fulfillRequest\<close>. Its declared properties are
  \<open>responseHeaders\<close>, \<open>body\<close> and \<open>responsePhrase\<close>; \<open>bodyBase64\<close> is the property that the
  object built by \<open>fulfill_request_with_file\<close> carries. \<open>fulfillRequest\<close> reads the three
  declared ones.
\<close>

record FulfillOptions =
  fo_responseHeaders :: "headers option"
  fo_body :: "string option"
  fo_responsePhrase :: "string option"
  fo_bodyBase64 :: "string option"

definition fulfill_params :: "string \<Rightarrow> int \<Rightarrow> FulfillOptions \<Rightarrow> json" where
  "fulfill_params requestId responseCode options =
     JObj ([(''requestId'', JStr requestId), (''responseCode'', JNum responseCode)]
           @ (case fo_responseHeaders options of None \<Rightarrow> []
              | Some hs \<Rightarrow> [(''responseHeaders'', header_entries hs)])
           @ (if truthy_string (fo_body options)
              then [(''body'', JStr (base64 (the (fo_body options))))] else [])
           @ (if truthy_string (fo_responsePhrase options)
              then [(''responsePhrase'', JStr (the (fo_responsePhrase options)))] else []))"

definition fulfillRequest ::
  "string \<Rightarrow> int \<Rightarrow> FulfillOptions \<Rightarrow> reply \<Rightarrow> DebugSession \<Rightarrow> (js_error + unit) \<times> DebugSession" where
  "fulfillRequest requestId responseCode options rep s =
     (case await_send ''Fetch.fulfillRequest'' (Some (fulfill_params requestId responseCode options)) rep s of
        (Inl e, s') \<Rightarrow> (Inl e, s')
      | (Inr r, s') \<Rightarrow>
          (Inr (), s'\<lparr>s_fetchInterceptor := removePausedRequest requestId (s_fetchInterceptor s')\<rparr>))"

definition failRequest ::
  "string \<Rightarrow> string \<Rightarrow> reply \<Rightarrow> DebugSession \<Rightarrow> (js_error + unit) \<times> DebugSession" where
  "failRequest requestId errorReason rep s =
     (case await_send ''Fetch.failRequest''
              (Some (JObj [(''requestId'', JStr requestId), (''errorReason'', JStr errorReason)]))
              rep s of
        (Inl e, s') \<Rightarrow> (Inl e, s')
      | (Inr r, s') \<Rightarrow>
          (Inr (), s'\<lparr>s_fetchInterceptor := removePausedRequest requestId (s_fetchInterceptor s')\<rparr>))"


section \<open>Fetch tools (src/tools/fetch.ts)\<close>

text \<open>
  A tool result: \<open>success(text)\<close>, \<open>success(formatObject(obj))\<close> (the JSON text of the
  object), or \<open>error(message)\<close>, whose text is \<open>Error: \<close> followed by the message and which
  sets \<open>isError\<close>.
\<close>

datatype ToolResult = success string | success_object json | error string

definition isError :: "ToolResult \<Rightarrow> bool" where
  "isError r = (case r of error m \<Rightarrow> True | _ \<Rightarrow> False)"

text \<open>
  \<open>e.message\<close>. The text of a \<open>SyntaxError\<close> is the runtime's; no handler below can
  receive one.
\<close>

fun message_of :: "js_error \<Rightarrow> string" where
  "message_of SyntaxError = []"
| "message_of (Error m) = m"
| "message_of (PausedError m) = m"
| "message_of (CDPClientError code m) = m"

record ContinueRequestParams =
  cr_requestId :: string
  cr_url :: "string option"
  cr_method :: "string option"
  cr_postData :: "string option"
  cr_headers :: "headers option"

definition continue_request :: "ContinueRequestParams \<Rightarrow> reply \<Rightarrow> DebugSession \<Rightarrow> ToolResult \<times> DebugSession" where
  "continue_request p rep s =
     (case getPausedRequest (s_fetchInterceptor s) (cr_requestId p) of
        None \<Rightarrow> (error ''Request not found in paused requests'', s)
      | Some paused \<Rightarrow>
          (case continueRequest (cr_requestId p)
                  \<lparr>co_url = cr_url p, co_method = cr_method p, co_postData = cr_postData p,
                   co_headers = cr_headers p\<rparr> rep s of
             (Inl e, s') \<Rightarrow> (error (message_of e), s')
           | (Inr u, s') \<Rightarrow> (success ''Request continued'', s')))"

record FulfillRequestParams =
  fr_requestId :: string
  fr_status :: int
  fr_statusText :: "string option"
  fr_headers :: "headers option"
  fr_body :: "string option"

definition fulfill_request :: "FulfillRequestParams \<Rightarrow> reply \<Rightarrow> DebugSession \<Rightarrow> ToolResult \<times> DebugSession" where
  "fulfill_request p rep s =
     (case getPausedRequest (s_fetchInterceptor s) (fr_requestId p) of
        None \<Rightarrow> (error ''Request not found in paused requests'', s)
      | Some paused \<Rightarrow>
          (case fulfillRequest (fr_requestId p) (fr_status p)
                  \<lparr>fo_responseHeaders = fr_headers p, fo_body = fr_body p,
                   fo_responsePhrase = fr_statusText p, fo_bodyBase64 = None\<rparr> rep s of
             (Inl e, s') \<Rightarrow> (error (message_of e), s')
           | (Inr u, s') \<Rightarrow> (success ''Request fulfilled with mock response'', s')))"

definition mimeTypes :: "(string \<times> string) list" where
  "mimeTypes =
     [(''.html'', ''text/html''), (''.htm'', ''text/html''), (''.css'', ''text/css''),
      (''.js'', ''application/javascript''), (''.mjs'', ''application/javascript''),
      (''.json'', ''application/json''), (''.xml'', ''application/xml''),
      (''.txt'', ''text/plain''), (''.csv'', ''text/csv''), (''.svg'', ''image/svg+xml''),
      (''.png'', ''image/png''), (''.jpg'', ''image/jpeg''), (''.jpeg'', ''image/jpeg''),
      (''.gif'', ''image/gif''), (''.webp'', ''image/webp''), (''.ico'', ''image/x-icon''),
      (''.woff'', ''font/woff''), (''.woff2'', ''font/woff2''), (''.ttf'', ''font/ttf''),
      (''.otf'', ''font/otf''), (''.eot'', ''application/vnd.ms-fontobject''),
      (''.pdf'', ''application/pdf''), (''.zip'', ''application/zip''),
      (''.wasm'', ''application/wasm'')]"

text \<open>
  \<open>getMimeType\<close>; \<open>ext\<close> is \<open>extname(filePath).toLowerCase()\<close>, computed by the runtime's
  \<open>path\<close> module.
\<close>

definition getMimeType :: "string \<Rightarrow> string" where
  "getMimeType ext = (case map_of mimeTypes ext of None \<Rightarrow> ''application/octet-stream'' | Some m \<Rightarrow> m)"

text \<open>
  \<open>fulfill_request_with_file\<close>; \<open>file\<close> is what \<open>readFile(p.filePath)\<close> gives, the bytes of
  the file or the error it throws, and \<open>ext\<close> the lower-cased extension of the path.
\<close>

record FulfillWithFileParams =
  ff_requestId :: string
  ff_filePath :: string
  ff_status :: "int option"
  ff_statusText :: "string option"
  ff_contentType :: "string option"
  ff_headers :: "headers option"

definition fulfill_request_with_file ::
  "FulfillWithFileParams \<Rightarrow> string \<Rightarrow> js_error + string \<Rightarrow> reply \<Rightarrow> DebugSession
     \<Rightarrow> ToolResult \<times> DebugSession" where
  "fulfill_request_with_file p ext file rep s =
     (case getPausedRequest (s_fetchInterceptor s) (ff_requestId p) of
        None \<Rightarrow> (error ''Request not found in paused requests'', s)
      | Some paused \<Rightarrow>
          (case file of
             Inl e \<Rightarrow> (error (message_of e), s)
           | Inr fileContent \<Rightarrow>
               (let contentType = (case ff_contentType p of None \<Rightarrow> getMimeType ext | Some t \<Rightarrow> t);
                    headerEntries =
                      [(''Content-Type'', contentType),
                       (''Content-Length'', show_nat (length fileContent))]
                      @ (case ff_headers p of None \<Rightarrow> [] | Some hs \<Rightarrow> hs)
                in case fulfillRequest (ff_requestId p)
                          (case ff_status p of None \<Rightarrow> 200 | Some st \<Rightarrow> st)
                          \<lparr>fo_responseHeaders = Some headerEntries, fo_body = None,
                           fo_responsePhrase = ff_statusText p,
                           fo_bodyBase64 = Some (base64 fileContent)\<rparr> rep s of
                     (Inl e, s') \<Rightarrow> (error (message_of e), s')
                   | (Inr u, s') \<Rightarrow>
                       (success_object
                          (JObj [(''message'', JStr ''Request fulfilled with file contents''),
                                 (''filePath'', JStr (ff_filePath p)),
                                 (''contentType'', JStr contentType),
                                 (''size'', JNum (int (length fileContent)))]), s'))))"

record FailRequestParams =
  fa_requestId :: string
  fa_reason :: string

definition fail_request :: "FailRequestParams \<Rightarrow> reply \<Rightarrow> DebugSession \<Rightarrow> ToolResult \<times> DebugSession" where
  "fail_request p rep s =
     (case getPausedRequest (s_fetchInterceptor s) (fa_requestId p) of
        None \<Rightarrow> (error ''Request not found in paused requests'', s)
      | Some paused \<Rightarrow>
          (case failRequest (fa_requestId p) (fa_reason p) rep s of
             (Inl e, s') \<Rightarrow> (error (message_of e), s')
           | (Inr u, s') \<Rightarrow> (success ''Request failed'', s')))"

text \<open>The body placed on the wire by the last frame written, if it has one.\<close>

definition json_field :: "string \<Rightarrow> json option \<Rightarrow> json option" where
  "json_field k params = (case params of Some (JObj kvs) \<Rightarrow> map_of kvs k | _ \<Rightarrow> None)"

definition last_frame :: "DebugSession \<Rightarrow> CDPRequest option" where
  "last_frame s = (case rev (cl_wire (s_client s)) of [] \<Rightarrow> None | f # _ \<Rightarrow> Some f)"

definition wire_body :: "DebugSession \<Rightarrow> json option" where
  "wire_body s = (case last_frame s of None \<Rightarrow> None | Some f \<Rightarrow> json_field ''body'' (req_params f))"

section \<open>Sequences of FetchInterceptor operations\<close>

datatype fi_op =
    AddRule RuleSpec
  | RemoveRule string
  | UpdateRule string RuleUpdates
  | EnableRule string bool
  | ClearRules
  | SetEnabled bool
  | RequestPaused nat FetchRequestPaused
  | RemovePausedRequest string
  | ClearPausedRequests
  | Reset

text \<open>One operation: the id it returns, when it is \<open>addRule\<close>, and the state after it.\<close>

fun fi_apply :: "RegExp_ctor \<Rightarrow> fi_op \<Rightarrow> FetchInterceptor \<Rightarrow> string option \<times> FetchInterceptor" where
  "fi_apply rx (AddRule n) fi = (case addRule n fi of (i, fi') \<Rightarrow> (Some i, fi'))"
| "fi_apply rx (RemoveRule i) fi = (None, snd (removeRule i fi))"
| "fi_apply rx (UpdateRule i u) fi = (None, snd (updateRule i u fi))"
| "fi_apply rx (EnableRule i en) fi = (None, snd (enableRule i en fi))"
| "fi_apply rx ClearRules fi = (None, clearRules fi)"
| "fi_apply rx (SetEnabled en) fi = (None, fi_setEnabled en fi)"
| "fi_apply rx (RequestPaused now ev) fi =
     (case onRequestPaused rx now ev fi of Inl e \<Rightarrow> (None, fi) | Inr (p, fi') \<Rightarrow> (None, fi'))"
| "fi_apply rx (RemovePausedRequest i) fi = (None, removePausedRequest i fi)"
| "fi_apply rx ClearPausedRequests fi = (None, clearPausedRequests fi)"
| "fi_apply rx Reset fi = (None, fi_reset fi)"

text \<open>The ids returned by the \<open>addRule\<close> calls of a sequence, in order.\<close>

fun returned_ids :: "RegExp_ctor \<Rightarrow> fi_op list \<Rightarrow> FetchInterceptor \<Rightarrow> string list" where
  "returned_ids rx [] fi = []"
| "returned_ids rx (op # ops) fi =
     (case fi_apply rx op fi of
        (None, fi') \<Rightarrow> returned_ids rx ops fi'
      | (Some i, fi') \<Rightarrow> i # returned_ids rx ops fi')"

fun fi_run :: "RegExp_ctor \<Rightarrow> fi_op list \<Rightarrow> FetchInterceptor \<Rightarrow> FetchInterceptor" where
  "fi_run rx [] fi = fi"
| "fi_run rx (op # ops) fi = fi_run rx ops (snd (fi_apply rx op fi))"


section \<open>Concrete inputs\<close>

text \<open>The inputs of the repository's unit tests, used to evaluate the operations.\<close>

definition example_request :: "string \<Rightarrow> RequestData" where
  "example_request url =
     \<lparr>rq_url = url, rq_method = ''GET'', rq_headers = [], rq_postData = None,
      rq_hasPostData = None, rq_mixedContentType = None, rq_initialPriority = ''High'',
      rq_referrerPolicy = ''no-referrer''\<rparr>"



definition example_rule :: RuleSpec where
  "example_rule =
     \<lparr>n_pattern = ''*/api/*'', n_resourceTypes = None, n_action = pause, n_modifyHeaders = None,
      n_modifyUrl = None, n_mockResponse = None, n_failReason = None, n_enabled = Some True\<rparr>"

definition example_requestPaused :: FetchRequestPaused where
  "example_requestPaused =
     \<lparr>fp_requestId = ''interception-1'',
      fp_request = example_request ''http://example.com/api/mock-me'',
      fp_frameId = ''frame1'', fp_resourceType = ''Fetch''\<rparr>"

definition example_pausedRequest :: PausedRequest where
  "example_pausedRequest =
     \<lparr>p_requestId = ''interception-1'', p_url = ''http://example.com/api/mock-me'',
      p_method = ''GET'', p_resourceType = ''Fetch'', p_headers = [], p_postData = None,
      p_timestamp = 0, p_matchedRule = None\<rparr>"

definition example_location :: "int \<Rightarrow> Location" where
  "example_location line = \<lparr>l_scriptId = ''script1'', l_lineNumber = line, l_columnNumber = Some 5\<rparr>"

definition example_callFrame :: CallFrame where
  "example_callFrame =
     \<lparr>cf_callFrameId = ''frame1'', cf_functionName = ''test'', cf_functionLocation = None,
      cf_location = \<lparr>l_scriptId = ''script1'', l_lineNumber = 10, l_columnNumber = None\<rparr>,
      cf_url = ''test.js'', cf_scopeChain = JArr [], cf_this = JObj [(''type'', JStr ''undefined'')],
      cf_returnValue = None\<rparr>"

definition example_paused :: PausedParams where
  "example_paused =
     \<lparr>pp_callFrames = [example_callFrame], pp_reason = ''breakpoint'', pp_data = None,
      pp_hitBreakpoints = None, pp_asyncStackTrace = None\<rparr>"

definition example_breakpoint :: ManagedBreakpoint where
  "example_breakpoint =
     \<lparr>b_id = ''bp1'', b_url = Some ''test.js'', b_urlRegex = None, b_scriptId = None,
      b_lineNumber = 10, b_columnNumber = None, b_condition = None, b_locations = [],
      b_enabled = True\<rparr>"

definition example_options :: EvaluateOptions where
  "example_options =
     \<lparr>eo_objectGroup = None, eo_contextId = None, eo_returnByValue = None,
      eo_generatePreview = None, eo_awaitPromise = None, eo_timeout = None\<rparr>"

definition connected_client :: CDPClient where
  "connected_client = (CDPClient_new 30000)\<lparr>cl_ws := True, cl_connected := True\<rparr>"

text \<open>A connected session that holds one paused request and no rule.\<close>

definition example_session :: DebugSession where
  "example_session =
     (DebugSession_new 30000)
       \<lparr>s_client := connected_client,
        s_fetchInterceptor :=
          FetchInterceptor_new\<lparr>fi_pausedRequests := [(''interception-1'', example_pausedRequest)]\<rparr>\<rparr>"

text \<open>The same session after a \<open>Debugger.paused\<close> event.\<close>

definition example_paused_session :: DebugSession where
  "example_paused_session =
     example_session\<lparr>s_debugState := on_debugger_event (Debugger_paused example_paused) DebugState_new\<rparr>"


definition example_continue :: "string \<Rightarrow> ContinueRequestParams" where
  "example_continue i =
     \<lparr>cr_requestId = i, cr_url = None, cr_method = None, cr_postData = None, cr_headers = None\<rparr>"

definition example_fulfill :: "string \<Rightarrow> FulfillRequestParams" where
  "example_fulfill i =
     \<lparr>fr_requestId = i, fr_status = 200, fr_statusText = None,
      fr_headers = Some [(''Content-Type'', ''application/json'')], fr_body = Some ''{mocked:true}''\<rparr>"

definition example_fulfill_file :: "string \<Rightarrow> FulfillWithFileParams" where
  "example_fulfill_file i =
     \<lparr>ff_requestId = i, ff_filePath = ''/tmp/mock.json'', ff_status = None, ff_statusText = None,
      ff_contentType = None, ff_headers = None\<rparr>"

definition example_fail :: "string \<Rightarrow> FailRequestParams" where
  "example_fail i = \<lparr>fa_requestId = i, fa_reason = ''Failed''\<rparr>"

definition example_protocol_error :: CDPError where
  "example_protocol_error =
     \<lparr>err_code = - 32602, err_message = ''Invalid InterceptionId.'', err_data = None\<rparr>"


text \<open>The same session with one rule added.\<close>

definition example_rule_session :: DebugSession where
  "example_rule_session =
     example_session\<lparr>s_fetchInterceptor := snd (addRule example_rule (s_fetchInterceptor example_session))\<rparr>"

section \<open>Facts about the containers\<close>

lemma Map_get_set: "Map_get (Map_set m k v) k' = (if k = k' then Some v else Map_get m k')"
  by (induction m) auto

lemma Map_get_delete: "Map_get (Map_delete m k) k' = (if k = k' then None else Map_get m k')"
  by (induction m) (auto simp: Map_delete_def)

section \<open>Evaluation while paused\<close>

text \<open>
  C1. When DebugState is paused, \<open>evaluate\<close> fails at once with the PausedError built from
  the pause reason, whatever would have happened to a call, and the session is left as it
  was: no frame is written, no request id is taken and the pending table is untouched.
\<close>

theorem evaluate_while_paused:
  assumes "isPaused (s_debugState s)"
  shows "evaluate expression options rc s =
           (Inl (PausedError_new (ps_reason (getPauseState (s_debugState s)))), s)"
  using assms by (simp add: evaluate_def)

theorem evaluate_while_paused_witness:
  "isPaused (s_debugState example_paused_session) \<and>
   evaluate ''1+2'' example_options (Call_settles (Reply_result None)) example_paused_session =
     (Inl (PausedError ''Execution blocked: debugger is paused (breakpoint)''), example_paused_session) \<and>
   cl_wire (s_client (snd (evaluate ''1+2'' example_options (Call_settles (Reply_result None))
      example_paused_session))) = []"
proof -
  have p: "isPaused (s_debugState example_paused_session)"
    by (simp add: example_paused_session_def isPaused_def setPaused_def)
  have r: "PausedError_new (ps_reason (getPauseState (s_debugState example_paused_session)))
      = PausedError ''Execution blocked: debugger is paused (breakpoint)''"
    by (simp add: example_paused_session_def getPauseState_def setPaused_def PausedError_new_def
        truthy_string_def example_paused_def)
  have w: "cl_wire (s_client example_paused_session) = []"
    by (simp add: example_paused_session_def example_session_def connected_client_def CDPClient_new_def)
  show ?thesis
    using evaluate_while_paused [OF p, of "''1+2''" example_options "Call_settles (Reply_result None)"] p r w
    by simp
qed

section \<open>Resolved breakpoints\<close>

lemma resolved_known:
  "Map_get (ds_breakpoints ds) i = Some bp \<Longrightarrow>
   getBreakpoint (on_debugger_event (Debugger_breakpointResolved i loc) ds) j =
     (if i = j then Some (bp\<lparr>b_locations := [loc]\<rparr>) else getBreakpoint ds j)"
  by (simp add: updateBreakpointLocations_def getBreakpoint_def Map_get_set)

lemma resolved_unknown:
  "Map_get (ds_breakpoints ds) i = None \<Longrightarrow>
   on_debugger_event (Debugger_breakpointResolved i loc) ds = ds"
  by (simp add: updateBreakpointLocations_def)

lemma resolved_sequence:
  "Map_get (ds_breakpoints ds) i = Some bp \<Longrightarrow> locs \<noteq> [] \<Longrightarrow>
   getBreakpoint (on_debugger_events (map (Debugger_breakpointResolved i) locs) ds) i =
     Some (bp\<lparr>b_locations := [last locs]\<rparr>)"
proof (induction locs arbitrary: ds bp)
  case Nil
  then show ?case by simp
next
  case (Cons l ls)
  let ?ds = "on_debugger_event (Debugger_breakpointResolved i l) ds"
  have step: "Map_get (ds_breakpoints ?ds) i = Some (bp\<lparr>b_locations := [l]\<rparr>)"
    using resolved_known [OF Cons.prems(1), of l i] by (simp add: getBreakpoint_def)
  show ?case
  proof (cases ls)
    case Nil
    then show ?thesis using step by (simp add: getBreakpoint_def)
  next
    case (Cons a as)
    then have "ls \<noteq> []" by simp
    from Cons.IH [OF step this] show ?thesis using \<open>ls \<noteq> []\<close> by simp
  qed
qed

lemma other_events_keep_breakpoints:
  "ds_breakpoints (on_debugger_event (Debugger_paused p) ds) = ds_breakpoints ds"
  "ds_breakpoints (on_debugger_event Debugger_resumed ds) = ds_breakpoints ds"
  "ds_breakpoints (on_debugger_event (Other_event m params) ds) = ds_breakpoints ds"
  by (simp_all add: setPaused_def setResumed_def)

text \<open>
  C2, as the code has it. A \<open>Debugger.breakpointResolved\<close> event for a breakpoint that
  DebugState holds replaces the breakpoint's list of locations by the one-element list of
  the event's location, so after any number of such events the list holds the last
  location only; the other breakpoints are untouched, an event for an unknown id changes
  nothing, and no other event of the router changes the breakpoint table.
\<close>

theorem breakpointResolved_replaces_locations:
  "(\<forall>bp. Map_get (ds_breakpoints ds) i = Some bp \<longrightarrow>
      getBreakpoint (on_debugger_event (Debugger_breakpointResolved i loc) ds) i =
        Some (bp\<lparr>b_locations := [loc]\<rparr>)) \<and>
   (\<forall>bp (locs :: Location list). Map_get (ds_breakpoints ds) i = Some bp \<and> locs \<noteq> [] \<longrightarrow>
      getBreakpoint (on_debugger_events (map (Debugger_breakpointResolved i) locs) ds) i =
        Some (bp\<lparr>b_locations := [last locs]\<rparr>)) \<and>
   (\<forall>j. j \<noteq> i \<longrightarrow>
      getBreakpoint (on_debugger_event (Debugger_breakpointResolved i loc) ds) j = getBreakpoint ds j) \<and>
   (Map_get (ds_breakpoints ds) i = None \<longrightarrow>
      on_debugger_event (Debugger_breakpointResolved i loc) ds = ds) \<and>
   ds_breakpoints (on_debugger_event (Debugger_paused p) ds) = ds_breakpoints ds \<and>
   ds_breakpoints (on_debugger_event Debugger_resumed ds) = ds_breakpoints ds \<and>
   ds_breakpoints (on_debugger_event (Other_event m params) ds) = ds_breakpoints ds"
proof (intro conjI allI impI)
  fix bp assume "Map_get (ds_breakpoints ds) i = Some bp"
  then show "getBreakpoint (on_debugger_event (Debugger_breakpointResolved i loc) ds) i =
        Some (bp\<lparr>b_locations := [loc]\<rparr>)"
    using resolved_known [of ds i bp loc i] by simp
next
  fix bp and locs :: "Location list" assume "Map_get (ds_breakpoints ds) i = Some bp \<and> locs \<noteq> []"
  then show "getBreakpoint (on_debugger_events (map (Debugger_breakpointResolved i) locs) ds) i =
        Some (bp\<lparr>b_locations := [last locs]\<rparr>)"
    using resolved_sequence by blast
next
  fix j assume "j \<noteq> i"
  then show "getBreakpoint (on_debugger_event (Debugger_breakpointResolved i loc) ds) j = getBreakpoint ds j"
    by (simp add: updateBreakpointLocations_def getBreakpoint_def Map_get_set split: option.splits)
next
  assume "Map_get (ds_breakpoints ds) i = None"
  then show "on_debugger_event (Debugger_breakpointResolved i loc) ds = ds"
    by (rule resolved_unknown)
qed (rule other_events_keep_breakpoints)+

theorem breakpointResolved_replaces_locations_witness:
  "getBreakpoint
     (on_debugger_events
        [Debugger_breakpointResolved ''bp1'' (example_location 10),
         Debugger_breakpointResolved ''bp1'' (example_location 11)]
        (addBreakpoint example_breakpoint DebugState_new)) ''bp1'' =
     Some (example_breakpoint\<lparr>b_locations := [example_location 11]\<rparr>)"
proof -
  have g: "Map_get (ds_breakpoints (addBreakpoint example_breakpoint DebugState_new)) ''bp1'' =
      Some example_breakpoint"
    by (simp add: addBreakpoint_def DebugState_new_def example_breakpoint_def)
  have a: "\<forall>bp (locs :: Location list).
      Map_get (ds_breakpoints (addBreakpoint example_breakpoint DebugState_new)) ''bp1'' = Some bp
        \<and> locs \<noteq> [] \<longrightarrow>
      getBreakpoint (on_debugger_events (map (Debugger_breakpointResolved ''bp1'') locs)
         (addBreakpoint example_breakpoint DebugState_new)) ''bp1'' =
        Some (bp\<lparr>b_locations := [last locs]\<rparr>)"
    by (rule conjunct1 [OF conjunct2 [OF breakpointResolved_replaces_locations]])
  from a [rule_format, of example_breakpoint "[example_location 10, example_location 11]"] g
  show ?thesis by simp
qed

text \<open>
  The claim as written fails: a breakpoint created with no location receives two resolved
  events, and its list then holds the second location alone, not both.
\<close>

theorem breakpointResolved_append_counterexample:
  "map_option b_locations (getBreakpoint
     (on_debugger_events
        [Debugger_breakpointResolved ''bp1'' (example_location 10),
         Debugger_breakpointResolved ''bp1'' (example_location 11)]
        (addBreakpoint example_breakpoint DebugState_new)) ''bp1'') = Some [example_location 11] \<and>
   map_option b_locations (getBreakpoint
     (on_debugger_events
        [Debugger_breakpointResolved ''bp1'' (example_location 10),
         Debugger_breakpointResolved ''bp1'' (example_location 11)]
        (addBreakpoint example_breakpoint DebugState_new)) ''bp1'')
     \<noteq> Some [example_location 10, example_location 11]"
  by (simp add: addBreakpoint_def DebugState_new_def example_breakpoint_def
      updateBreakpointLocations_def getBreakpoint_def example_location_def)


section \<open>Patterns whose regular expression does not compile\<close>

text \<open>
  C3, what the code does. For a pattern \<open>/.../\<close> whose inner text the RegExp constructor
  rejects: \<open>FetchInterceptor.matchesPattern\<close> returns \<open>false\<close>, while
  \<open>ScriptRegistry.matchesUrl\<close>, \<open>ScriptRegistry.findScriptsByUrlPattern\<close> and
  \<open>NetworkState.getRequestsByUrl\<close> throw the constructor's SyntaxError.
\<close>

theorem invalid_regex_pattern:
  assumes "startsWith_slash pattern" and "endsWith_slash pattern"
    and "rx (slice_1_m1 pattern) = None"
  shows "matchesPattern rx url pattern = Inr False \<and>
         matchesUrl rx url pattern = Inl SyntaxError \<and>
         findScriptsByUrlPattern rx sr pattern = Inl SyntaxError \<and>
         getRequestsByUrl rx ns pattern = Inl SyntaxError"
proof -
  have "pattern \<noteq> ''*''"
    using assms(1) by (auto simp add: startsWith_slash_def)
  then show ?thesis
    using assms
    by (simp add: matchesPattern_def matchesUrl_def findScriptsByUrlPattern_def getRequestsByUrl_def
        sr_patternToRegex_def ns_patternToRegex_def)
qed

theorem invalid_regex_pattern_witness:
  "RegExp_lite ''[invalid'' = None \<and>
   matchesPattern RegExp_lite ''test'' ''/[invalid/'' = Inr False \<and>
   matchesUrl RegExp_lite ''test'' ''/[invalid/'' = Inl SyntaxError \<and>
   findScriptsByUrlPattern RegExp_lite ScriptRegistry_new ''/[invalid/'' = Inl SyntaxError \<and>
   getRequestsByUrl RegExp_lite NetworkState_new ''/[invalid/'' = Inl SyntaxError"
proof -
  have a: "startsWith_slash ''/[invalid/''" "endsWith_slash ''/[invalid/''"
    by (simp_all add: startsWith_slash_def endsWith_slash_def)
  have b: "slice_1_m1 ''/[invalid/'' = ''[invalid''"
    by (simp add: slice_1_m1_def)
  have c: "RegExp_lite ''[invalid'' = None"
    by (simp add: RegExp_lite_def backslash_def)
  from c have d: "RegExp_lite (slice_1_m1 ''/[invalid/'') = None"
    by (simp only: b)
  show ?thesis
    using invalid_regex_pattern [where rx = RegExp_lite and pattern = "''/[invalid/''"
        and url = "''test''" and sr = ScriptRegistry_new and ns = NetworkState_new] a c d
    by simp
qed



section \<open>Awaited calls\<close>

lemma send_connected:
  "cl_ws c \<Longrightarrow> cl_connected c \<Longrightarrow>
   send method params c =
     Inr (cl_requestId c + 1,
          c\<lparr>cl_requestId := cl_requestId c + 1,
            cl_timers := Map_set (cl_timers c) (cl_requestId c + 1) method,
            cl_pendingRequests := Map_set (cl_pendingRequests c) (cl_requestId c + 1) \<lparr>pr_method = method\<rparr>,
            cl_wire := cl_wire c @
              [\<lparr>req_id = cl_requestId c + 1, req_method = method, req_params = params,
                req_sessionId = (if truthy_string (cl_sessionId c) then cl_sessionId c else None)\<rparr>]\<rparr>)"
  by (simp add: send_def Let_def)

lemma send_not_connected:
  "\<not> (cl_ws c \<and> cl_connected c) \<Longrightarrow> send method params c = Inl (Error ''Not connected'')"
  by (auto simp add: send_def)

lemma call_not_connected:
  "\<not> (cl_ws c \<and> cl_connected c) \<Longrightarrow> call method params rep c = (Inl (Error ''Not connected''), c)"
  by (simp add: call_def send_not_connected)

lemma wire_handleResponse: "cl_wire (handleResponse r c) = cl_wire c"
  by (simp add: handleResponse_def Let_def split: option.splits)

lemma wire_timer_fires: "cl_wire (timer_fires i c) = cl_wire c"
  by (simp add: timer_fires_def split: option.splits)

lemma wire_rejectAllPending: "cl_wire (rejectAllPending e c) = cl_wire c"
  by (simp add: rejectAllPending_def)

lemma wire_ws_on_close: "cl_wire (ws_on_close c) = cl_wire c"
  by (simp add: ws_on_close_def wire_rejectAllPending)

lemma wire_disconnect: "cl_wire (disconnect c) = cl_wire c"
  by (simp add: disconnect_def wire_rejectAllPending)

lemma requestId_handleResponse: "cl_requestId (handleResponse r c) = cl_requestId c"
  by (simp add: handleResponse_def Let_def split: option.splits)

lemma requestId_timer_fires: "cl_requestId (timer_fires i c) = cl_requestId c"
  by (simp add: timer_fires_def split: option.splits)

lemma requestId_ws_on_close: "cl_requestId (ws_on_close c) = cl_requestId c"
  by (simp add: ws_on_close_def rejectAllPending_def)

lemma requestId_disconnect: "cl_requestId (disconnect c) = cl_requestId c"
  by (simp add: disconnect_def rejectAllPending_def)

lemma call_wire:
  "cl_ws c \<Longrightarrow> cl_connected c \<Longrightarrow>
   cl_wire (snd (call method params rep c)) =
     cl_wire c @ [\<lparr>req_id = cl_requestId c + 1, req_method = method, req_params = params,
                   req_sessionId = (if truthy_string (cl_sessionId c) then cl_sessionId c else None)\<rparr>]"
  by (cases rep)
     (simp_all add: call_def send_connected wire_handleResponse wire_timer_fires wire_ws_on_close
        wire_disconnect)

lemma call_requestId:
  "cl_ws c \<Longrightarrow> cl_connected c \<Longrightarrow> cl_requestId (snd (call method params rep c)) = cl_requestId c + 1"
  by (cases rep)
     (simp_all add: call_def send_connected requestId_handleResponse requestId_timer_fires
        requestId_ws_on_close requestId_disconnect)

lemma call_outcome:
  "cl_ws c \<Longrightarrow> cl_connected c \<Longrightarrow>
   fst (call method params rep c) =
     (case rep of
        Reply_result r \<Rightarrow> Inr r
      | Reply_error e \<Rightarrow> Inl (CDPClientError (err_code e) (err_message e))
      | Reply_timeout \<Rightarrow> Inl (Error (timeout_message method (cl_requestId c + 1)))
      | Reply_closed \<Rightarrow> Inl (Error ''Connection closed'')
      | Reply_disconnect \<Rightarrow> Inl (Error ''Disconnected'')
      | Reply_kill \<Rightarrow> Inl (Error ''Disconnected''))"
  by (cases rep) (simp_all add: call_def send_connected)

lemma call_result:
  "cl_ws c \<Longrightarrow> cl_connected c \<Longrightarrow> fst (call method params (Reply_result r) c) = Inr r"
  by (simp add: call_def send_connected)

lemma await_send_not_connected:
  "\<not> (cl_ws (s_client s) \<and> cl_connected (s_client s)) \<Longrightarrow>
   await_send method params rep s = (Inl (Error ''Not connected''), s)"
  by (simp add: await_send_def send_not_connected)

lemma await_send_connected:
  "cl_ws (s_client s) \<Longrightarrow> cl_connected (s_client s) \<Longrightarrow>
   await_send method params rep s =
     (fst (call method params rep (s_client s)),
      (case rep of
         Reply_disconnect \<Rightarrow> session_reset (s\<lparr>s_client := snd (call method params rep (s_client s))\<rparr>)
       | _ \<Rightarrow> s\<lparr>s_client := snd (call method params rep (s_client s))\<rparr>))"
  by (cases "call method params rep (s_client s)"; cases rep)
     (simp_all add: await_send_def send_connected)

lemma await_send_client:
  "cl_ws (s_client s) \<Longrightarrow> cl_connected (s_client s) \<Longrightarrow>
   s_client (snd (await_send method params rep s)) = snd (call method params rep (s_client s))"
  by (cases rep) (simp_all add: await_send_connected session_reset_def)

lemma await_send_result:
  "cl_ws (s_client s) \<Longrightarrow> cl_connected (s_client s) \<Longrightarrow>
   await_send method params (Reply_result r) s =
     (Inr r, s\<lparr>s_client := snd (call method params (Reply_result r) (s_client s))\<rparr>)"
  by (simp add: await_send_connected call_result)

text \<open>
  The three dispatch operations of the facade have one shape: await the call, then take
  the request out of the paused table.
\<close>

lemma dispatch_unfold:
  "continueRequest i co rep s =
     (case await_send ''Fetch.continueRequest'' (Some (continue_params i co)) rep s of
        (Inl e, s') \<Rightarrow> (Inl e, s')
      | (Inr r, s') \<Rightarrow> (Inr (), s'\<lparr>s_fetchInterceptor := removePausedRequest i (s_fetchInterceptor s')\<rparr>))"
  "fulfillRequest i code fo rep s =
     (case await_send ''Fetch.fulfillRequest'' (Some (fulfill_params i code fo)) rep s of
        (Inl e, s') \<Rightarrow> (Inl e, s')
      | (Inr r, s') \<Rightarrow> (Inr (), s'\<lparr>s_fetchInterceptor := removePausedRequest i (s_fetchInterceptor s')\<rparr>))"
  "failRequest i reason rep s =
     (case await_send ''Fetch.failRequest''
             (Some (JObj [(''requestId'', JStr i), (''errorReason'', JStr reason)])) rep s of
        (Inl e, s') \<Rightarrow> (Inl e, s')
      | (Inr r, s') \<Rightarrow> (Inr (), s'\<lparr>s_fetchInterceptor := removePausedRequest i (s_fetchInterceptor s')\<rparr>))"
  by (simp_all add: continueRequest_def fulfillRequest_def failRequest_def)

lemma dispatch_connected:
  fixes s meth params rep i
  assumes "cl_ws (s_client s)" and "cl_connected (s_client s)"
  defines "d \<equiv> (case await_send meth params rep s of
        (Inl e, s') \<Rightarrow> (Inl e, s')
      | (Inr r, s') \<Rightarrow> (Inr (), s'\<lparr>s_fetchInterceptor := removePausedRequest i (s_fetchInterceptor s')\<rparr>))"
  shows "fst d =
      (case rep of
        Reply_result r \<Rightarrow> Inr ()
      | Reply_error e \<Rightarrow> Inl (CDPClientError (err_code e) (err_message e))
      | Reply_timeout \<Rightarrow> Inl (Error (timeout_message meth (cl_requestId (s_client s) + 1)))
      | Reply_closed \<Rightarrow> Inl (Error ''Connection closed'')
      | Reply_disconnect \<Rightarrow> Inl (Error ''Disconnected'')
      | Reply_kill \<Rightarrow> Inl (Error ''Disconnected''))"
    and "s_fetchInterceptor (snd d) =
      (case rep of
         Reply_result r \<Rightarrow> removePausedRequest i (s_fetchInterceptor s)
       | Reply_disconnect \<Rightarrow> fi_reset (s_fetchInterceptor s)
       | _ \<Rightarrow> s_fetchInterceptor s)"
    and "s_client (snd d) = snd (call meth params rep (s_client s))"
  using assms(1,2) call_outcome [OF assms(1,2), of meth params rep]
  by (cases rep; simp add: d_def await_send_connected session_reset_def)+

lemma dispatch_not_connected:
  assumes "\<not> (cl_ws (s_client s) \<and> cl_connected (s_client s))"
  shows "(case await_send method params rep s of
        (Inl e, s') \<Rightarrow> (Inl e, s')
      | (Inr r, s') \<Rightarrow> (Inr (), s'\<lparr>s_fetchInterceptor := removePausedRequest i (s_fetchInterceptor s')\<rparr>))
     = (Inl (Error ''Not connected''), s)"
  using assms by (simp add: await_send_not_connected)

lemma removed_is_gone: "getPausedRequest (removePausedRequest i fi) j = (if i = j then None else getPausedRequest fi j)"
  by (simp add: getPausedRequest_def removePausedRequest_def Map_get_delete)


section \<open>Dispatch of paused requests\<close>

lemma continue_request_unknown:
  "getPausedRequest (s_fetchInterceptor s) (cr_requestId p) = None \<Longrightarrow>
   continue_request p rep s = (error ''Request not found in paused requests'', s)"
  by (simp add: continue_request_def)

lemma fulfill_request_unknown:
  "getPausedRequest (s_fetchInterceptor s) (fr_requestId p) = None \<Longrightarrow>
   fulfill_request p rep s = (error ''Request not found in paused requests'', s)"
  by (simp add: fulfill_request_def)

lemma fail_request_unknown:
  "getPausedRequest (s_fetchInterceptor s) (fa_requestId p) = None \<Longrightarrow>
   fail_request p rep s = (error ''Request not found in paused requests'', s)"
  by (simp add: fail_request_def)

text \<open>What a tool makes of the outcome of the facade's operation.\<close>

lemma tool_outcome:
  assumes "fst d = (case rep of
        Reply_result r \<Rightarrow> Inr ()
      | Reply_error e \<Rightarrow> Inl (CDPClientError (err_code e) (err_message e))
      | Reply_timeout \<Rightarrow> Inl (Error tm)
      | Reply_closed \<Rightarrow> Inl (Error ''Connection closed'')
      | Reply_disconnect \<Rightarrow> Inl (Error ''Disconnected'')
      | Reply_kill \<Rightarrow> Inl (Error ''Disconnected''))"
  shows "fst (case d of (Inl e, s') \<Rightarrow> (error (message_of e), s') | (Inr u, s') \<Rightarrow> (success ok, s')) =
      (case rep of
        Reply_result r \<Rightarrow> success ok
      | Reply_error e \<Rightarrow> error (err_message e)
      | Reply_timeout \<Rightarrow> error tm
      | Reply_closed \<Rightarrow> error ''Connection closed''
      | Reply_disconnect \<Rightarrow> error ''Disconnected''
      | Reply_kill \<Rightarrow> error ''Disconnected'')"
    and "snd (case d of (Inl e, s') \<Rightarrow> (error (message_of e), s') | (Inr u, s') \<Rightarrow> (success ok, s')) = snd d"
proof -
  obtain x s' where d: "d = (x, s')" by (cases d)
  show "fst (case d of (Inl e, s') \<Rightarrow> (error (message_of e), s') | (Inr u, s') \<Rightarrow> (success ok, s')) =
      (case rep of
        Reply_result r \<Rightarrow> success ok
      | Reply_error e \<Rightarrow> error (err_message e)
      | Reply_timeout \<Rightarrow> error tm
      | Reply_closed \<Rightarrow> error ''Connection closed''
      | Reply_disconnect \<Rightarrow> error ''Disconnected''
      | Reply_kill \<Rightarrow> error ''Disconnected'')"
    using assms by (cases rep) (simp_all add: d)
  show "snd (case d of (Inl e, s') \<Rightarrow> (error (message_of e), s') | (Inr u, s') \<Rightarrow> (success ok, s')) = snd d"
    by (cases x) (simp_all add: d)
qed

text \<open>
  C7, as the code has it. For each of \<open>continue_request\<close>, \<open>fulfill_request\<close> and
  \<open>fail_request\<close>:
  on a request id that is not in the paused table the tool returns the not-found error and
  the whole session, transport included, is as it was;
  on an id that is in the table, with the transport not connected, it returns
  \<open>Not connected\<close> and the session is as it was;
  on an id that is in the table, with the transport connected, the CDP call is issued
  (one frame of the tool's method with the tool's parameters is written and the next
  request id is taken), and then: when the call returns a result the tool reports success
  and the entry is removed from the table; when the call is answered with a protocol
  error, times out, or is rejected because the socket closed or the browser is being
  killed, the tool returns that very error and the table is as before; when the call is
  rejected by \<open>DebugSession.disconnect()\<close> the tool returns \<open>Disconnected\<close> and the
  interceptor has been reset, so the table is empty.
\<close>

theorem paused_request_dispatch:
  "(getPausedRequest (s_fetchInterceptor s) (cr_requestId pc) = None \<longrightarrow>
      continue_request pc rep s = (error ''Request not found in paused requests'', s)) \<and>
   (getPausedRequest (s_fetchInterceptor s) (fr_requestId pf) = None \<longrightarrow>
      fulfill_request pf rep s = (error ''Request not found in paused requests'', s)) \<and>
   (getPausedRequest (s_fetchInterceptor s) (fa_requestId pa) = None \<longrightarrow>
      fail_request pa rep s = (error ''Request not found in paused requests'', s)) \<and>
   (getPausedRequest (s_fetchInterceptor s) (cr_requestId pc) \<noteq> None \<and>
    \<not> (cl_ws (s_client s) \<and> cl_connected (s_client s)) \<longrightarrow>
      continue_request pc rep s = (error ''Not connected'', s)) \<and>
   (getPausedRequest (s_fetchInterceptor s) (fr_requestId pf) \<noteq> None \<and>
    \<not> (cl_ws (s_client s) \<and> cl_connected (s_client s)) \<longrightarrow>
      fulfill_request pf rep s = (error ''Not connected'', s)) \<and>
   (getPausedRequest (s_fetchInterceptor s) (fa_requestId pa) \<noteq> None \<and>
    \<not> (cl_ws (s_client s) \<and> cl_connected (s_client s)) \<longrightarrow>
      fail_request pa rep s = (error ''Not connected'', s)) \<and>
   (getPausedRequest (s_fetchInterceptor s) (cr_requestId pc) \<noteq> None \<and>
    cl_ws (s_client s) \<and> cl_connected (s_client s) \<longrightarrow>
      fst (continue_request pc rep s) =
        (case rep of
           Reply_result r \<Rightarrow> success ''Request continued''
         | Reply_error e \<Rightarrow> error (err_message e)
         | Reply_timeout \<Rightarrow>
             error (timeout_message ''Fetch.continueRequest'' (cl_requestId (s_client s) + 1))
         | Reply_closed \<Rightarrow> error ''Connection closed''
         | Reply_disconnect \<Rightarrow> error ''Disconnected''
         | Reply_kill \<Rightarrow> error ''Disconnected'') \<and>
      s_fetchInterceptor (snd (continue_request pc rep s)) =
        (case rep of
           Reply_result r \<Rightarrow> removePausedRequest (cr_requestId pc) (s_fetchInterceptor s)
         | Reply_disconnect \<Rightarrow> fi_reset (s_fetchInterceptor s)
         | _ \<Rightarrow> s_fetchInterceptor s) \<and>
      cl_wire (s_client (snd (continue_request pc rep s))) =
        cl_wire (s_client s) @
          [\<lparr>req_id = cl_requestId (s_client s) + 1, req_method = ''Fetch.continueRequest'',
            req_params = Some (continue_params (cr_requestId pc)
               \<lparr>co_url = cr_url pc, co_method = cr_method pc, co_postData = cr_postData pc,
                co_headers = cr_headers pc\<rparr>),
            req_sessionId = (if truthy_string (cl_sessionId (s_client s))
                             then cl_sessionId (s_client s) else None)\<rparr>] \<and>
      cl_requestId (s_client (snd (continue_request pc rep s))) = cl_requestId (s_client s) + 1) \<and>
   (getPausedRequest (s_fetchInterceptor s) (fr_requestId pf) \<noteq> None \<and>
    cl_ws (s_client s) \<and> cl_connected (s_client s) \<longrightarrow>
      fst (fulfill_request pf rep s) =
        (case rep of
           Reply_result r \<Rightarrow> success ''Request fulfilled with mock response''
         | Reply_error e \<Rightarrow> error (err_message e)
         | Reply_timeout \<Rightarrow>
             error (timeout_message ''Fetch.fulfillRequest'' (cl_requestId (s_client s) + 1))
         | Reply_closed \<Rightarrow> error ''Connection closed''
         | Reply_disconnect \<Rightarrow> error ''Disconnected''
         | Reply_kill \<Rightarrow> error ''Disconnected'') \<and>
      s_fetchInterceptor (snd (fulfill_request pf rep s)) =
        (case rep of
           Reply_result r \<Rightarrow> removePausedRequest (fr_requestId pf) (s_fetchInterceptor s)
         | Reply_disconnect \<Rightarrow> fi_reset (s_fetchInterceptor s)
         | _ \<Rightarrow> s_fetchInterceptor s) \<and>
      cl_wire (s_client (snd (fulfill_request pf rep s))) =
        cl_wire (s_client s) @
          [\<lparr>req_id = cl_requestId (s_client s) + 1, req_method = ''Fetch.fulfillRequest'',
            req_params = Some (fulfill_params (fr_requestId pf) (fr_status pf)
               \<lparr>fo_responseHeaders = fr_headers pf, fo_body = fr_body pf,
                fo_responsePhrase = fr_statusText pf, fo_bodyBase64 = None\<rparr>),
            req_sessionId = (if truthy_string (cl_sessionId (s_client s))
                             then cl_sessionId (s_client s) else None)\<rparr>] \<and>
      cl_requestId (s_client (snd (fulfill_request pf rep s))) = cl_requestId (s_client s) + 1) \<and>
   (getPausedRequest (s_fetchInterceptor s) (fa_requestId pa) \<noteq> None \<and>
    cl_ws (s_client s) \<and> cl_connected (s_client s) \<longrightarrow>
      fst (fail_request pa rep s) =
        (case rep of
           Reply_result r \<Rightarrow> success ''Request failed''
         | Reply_error e \<Rightarrow> error (err_message e)
         | Reply_timeout \<Rightarrow>
             error (timeout_message ''Fetch.failRequest'' (cl_requestId (s_client s) + 1))
         | Reply_closed \<Rightarrow> error ''Connection closed''
         | Reply_disconnect \<Rightarrow> error ''Disconnected''
         | Reply_kill \<Rightarrow> error ''Disconnected'') \<and>
      s_fetchInterceptor (snd (fail_request pa rep s)) =
        (case rep of
           Reply_result r \<Rightarrow> removePausedRequest (fa_requestId pa) (s_fetchInterceptor s)
         | Reply_disconnect \<Rightarrow> fi_reset (s_fetchInterceptor s)
         | _ \<Rightarrow> s_fetchInterceptor s) \<and>
      cl_wire (s_client (snd (fail_request pa rep s))) =
        cl_wire (s_client s) @
          [\<lparr>req_id = cl_requestId (s_client s) + 1, req_method = ''Fetch.failRequest'',
            req_params = Some (JObj [(''requestId'', JStr (fa_requestId pa)),
                                     (''errorReason'', JStr (fa_reason pa))]),
            req_sessionId = (if truthy_string (cl_sessionId (s_client s))
                             then cl_sessionId (s_client s) else None)\<rparr>] \<and>
      cl_requestId (s_client (snd (fail_request pa rep s))) = cl_requestId (s_client s) + 1) \<and>
   getPausedRequest (removePausedRequest i (s_fetchInterceptor s)) i = None \<and>
   getPausedRequest (fi_reset (s_fetchInterceptor s)) i = None"
proof -
  let ?c = "s_client s"
  let ?co = "\<lparr>co_url = cr_url pc, co_method = cr_method pc, co_postData = cr_postData pc,
                co_headers = cr_headers pc\<rparr>"
  let ?fo = "\<lparr>fo_responseHeaders = fr_headers pf, fo_body = fr_body pf,
                fo_responsePhrase = fr_statusText pf, fo_bodyBase64 = None\<rparr>"
  have tc: "continue_request pc rep s =
      (case continueRequest (cr_requestId pc) ?co rep s of
         (Inl e, s') \<Rightarrow> (error (message_of e), s')
       | (Inr u, s') \<Rightarrow> (success ''Request continued'', s'))"
    if "getPausedRequest (s_fetchInterceptor s) (cr_requestId pc) \<noteq> None"
    using that by (auto simp add: continue_request_def)
  have tf: "fulfill_request pf rep s =
      (case fulfillRequest (fr_requestId pf) (fr_status pf) ?fo rep s of
         (Inl e, s') \<Rightarrow> (error (message_of e), s')
       | (Inr u, s') \<Rightarrow> (success ''Request fulfilled with mock response'', s'))"
    if "getPausedRequest (s_fetchInterceptor s) (fr_requestId pf) \<noteq> None"
    using that by (auto simp add: fulfill_request_def)
  have ta: "fail_request pa rep s =
      (case failRequest (fa_requestId pa) (fa_reason pa) rep s of
         (Inl e, s') \<Rightarrow> (error (message_of e), s')
       | (Inr u, s') \<Rightarrow> (success ''Request failed'', s'))"
    if "getPausedRequest (s_fetchInterceptor s) (fa_requestId pa) \<noteq> None"
    using that by (auto simp add: fail_request_def)
  have nc: "continueRequest (cr_requestId pc) ?co rep s = (Inl (Error ''Not connected''), s)"
    "fulfillRequest (fr_requestId pf) (fr_status pf) ?fo rep s = (Inl (Error ''Not connected''), s)"
    "failRequest (fa_requestId pa) (fa_reason pa) rep s = (Inl (Error ''Not connected''), s)"
    if "\<not> (cl_ws ?c \<and> cl_connected ?c)"
    unfolding dispatch_unfold using that by (simp_all add: await_send_not_connected)
  show ?thesis
  proof (intro conjI impI)
    assume "getPausedRequest (s_fetchInterceptor s) (cr_requestId pc) = None"
    then show "continue_request pc rep s = (error ''Request not found in paused requests'', s)"
      by (rule continue_request_unknown)
  next
    assume "getPausedRequest (s_fetchInterceptor s) (fr_requestId pf) = None"
    then show "fulfill_request pf rep s = (error ''Request not found in paused requests'', s)"
      by (rule fulfill_request_unknown)
  next
    assume "getPausedRequest (s_fetchInterceptor s) (fa_requestId pa) = None"
    then show "fail_request pa rep s = (error ''Request not found in paused requests'', s)"
      by (rule fail_request_unknown)
  next
    assume "getPausedRequest (s_fetchInterceptor s) (cr_requestId pc) \<noteq> None \<and>
      \<not> (cl_ws ?c \<and> cl_connected ?c)"
    then show "continue_request pc rep s = (error ''Not connected'', s)"
      using tc nc(1) by simp
  next
    assume "getPausedRequest (s_fetchInterceptor s) (fr_requestId pf) \<noteq> None \<and>
      \<not> (cl_ws ?c \<and> cl_connected ?c)"
    then show "fulfill_request pf rep s = (error ''Not connected'', s)"
      using tf nc(2) by simp
  next
    assume "getPausedRequest (s_fetchInterceptor s) (fa_requestId pa) \<noteq> None \<and>
      \<not> (cl_ws ?c \<and> cl_connected ?c)"
    then show "fail_request pa rep s = (error ''Not connected'', s)"
      using ta nc(3) by simp
  next
    assume a: "getPausedRequest (s_fetchInterceptor s) (cr_requestId pc) \<noteq> None \<and>
      cl_ws ?c \<and> cl_connected ?c"
    then have w: "cl_ws ?c" and k: "cl_connected ?c" by simp_all
    let ?m = "''Fetch.continueRequest''" and ?p = "Some (continue_params (cr_requestId pc) ?co)"
    let ?d = "continueRequest (cr_requestId pc) ?co rep s"
    note d = dispatch_connected [OF w k, where meth = ?m and params = ?p and rep = rep and i = "cr_requestId pc", folded dispatch_unfold]
    have t: "continue_request pc rep s =
        (case ?d of (Inl e, s') \<Rightarrow> (error (message_of e), s')
         | (Inr u, s') \<Rightarrow> (success ''Request continued'', s'))"
      using a tc by simp
    show "fst (continue_request pc rep s) =
        (case rep of
           Reply_result r \<Rightarrow> success ''Request continued''
         | Reply_error e \<Rightarrow> error (err_message e)
         | Reply_timeout \<Rightarrow> error (timeout_message ?m (cl_requestId ?c + 1))
         | Reply_closed \<Rightarrow> error ''Connection closed''
         | Reply_disconnect \<Rightarrow> error ''Disconnected''
         | Reply_kill \<Rightarrow> error ''Disconnected'')"
      unfolding t by (rule tool_outcome(1) [OF d(1)])
    have sn: "snd (continue_request pc rep s) = snd ?d"
      unfolding t by (rule tool_outcome(2) [OF d(1)])
    show "s_fetchInterceptor (snd (continue_request pc rep s)) =
        (case rep of
           Reply_result r \<Rightarrow> removePausedRequest (cr_requestId pc) (s_fetchInterceptor s)
         | Reply_disconnect \<Rightarrow> fi_reset (s_fetchInterceptor s)
         | _ \<Rightarrow> s_fetchInterceptor s)"
      unfolding sn by (rule d(2))
    show "cl_wire (s_client (snd (continue_request pc rep s))) =
        cl_wire ?c @
          [\<lparr>req_id = cl_requestId ?c + 1, req_method = ?m, req_params = ?p,
            req_sessionId = (if truthy_string (cl_sessionId ?c) then cl_sessionId ?c else None)\<rparr>]"
      unfolding sn d(3) by (rule call_wire [OF w k])
    show "cl_requestId (s_client (snd (continue_request pc rep s))) = cl_requestId ?c + 1"
      unfolding sn d(3) by (rule call_requestId [OF w k])
  next
    assume a: "getPausedRequest (s_fetchInterceptor s) (fr_requestId pf) \<noteq> None \<and>
      cl_ws ?c \<and> cl_connected ?c"
    then have w: "cl_ws ?c" and k: "cl_connected ?c" by simp_all
    let ?m = "''Fetch.fulfillRequest''"
      and ?p = "Some (fulfill_params (fr_requestId pf) (fr_status pf) ?fo)"
    let ?d = "fulfillRequest (fr_requestId pf) (fr_status pf) ?fo rep s"
    note d = dispatch_connected [OF w k, where meth = ?m and params = ?p and rep = rep and i = "fr_requestId pf", folded dispatch_unfold]
    have t: "fulfill_request pf rep s =
        (case ?d of (Inl e, s') \<Rightarrow> (error (message_of e), s')
         | (Inr u, s') \<Rightarrow> (success ''Request fulfilled with mock response'', s'))"
      using a tf by simp
    show "fst (fulfill_request pf rep s) =
        (case rep of
           Reply_result r \<Rightarrow> success ''Request fulfilled with mock response''
         | Reply_error e \<Rightarrow> error (err_message e)
         | Reply_timeout \<Rightarrow> error (timeout_message ?m (cl_requestId ?c + 1))
         | Reply_closed \<Rightarrow> error ''Connection closed''
         | Reply_disconnect \<Rightarrow> error ''Disconnected''
         | Reply_kill \<Rightarrow> error ''Disconnected'')"
      unfolding t by (rule tool_outcome(1) [OF d(1)])
    have sn: "snd (fulfill_request pf rep s) = snd ?d"
      unfolding t by (rule tool_outcome(2) [OF d(1)])
    show "s_fetchInterceptor (snd (fulfill_request pf rep s)) =
        (case rep of
           Reply_result r \<Rightarrow> removePausedRequest (fr_requestId pf) (s_fetchInterceptor s)
         | Reply_disconnect \<Rightarrow> fi_reset (s_fetchInterceptor s)
         | _ \<Rightarrow> s_fetchInterceptor s)"
      unfolding sn by (rule d(2))
    show "cl_wire (s_client (snd (fulfill_request pf rep s))) =
        cl_wire ?c @
          [\<lparr>req_id = cl_requestId ?c + 1, req_method = ?m, req_params = ?p,
            req_sessionId = (if truthy_string (cl_sessionId ?c) then cl_sessionId ?c else None)\<rparr>]"
      unfolding sn d(3) by (rule call_wire [OF w k])
    show "cl_requestId (s_client (snd (fulfill_request pf rep s))) = cl_requestId ?c + 1"
      unfolding sn d(3) by (rule call_requestId [OF w k])
  next
    assume a: "getPausedRequest (s_fetchInterceptor s) (fa_requestId pa) \<noteq> None \<and>
      cl_ws ?c \<and> cl_connected ?c"
    then have w: "cl_ws ?c" and k: "cl_connected ?c" by simp_all
    let ?m = "''Fetch.failRequest''"
      and ?p = "Some (JObj [(''requestId'', JStr (fa_requestId pa)),
                                     (''errorReason'', JStr (fa_reason pa))])"
    let ?d = "failRequest (fa_requestId pa) (fa_reason pa) rep s"
    note d = dispatch_connected [OF w k, where meth = ?m and params = ?p and rep = rep and i = "fa_requestId pa", folded dispatch_unfold]
    have t: "fail_request pa rep s =
        (case ?d of (Inl e, s') \<Rightarrow> (error (message_of e), s')
         | (Inr u, s') \<Rightarrow> (success ''Request failed'', s'))"
      using a ta by simp
    show "fst (fail_request pa rep s) =
        (case rep of
           Reply_result r \<Rightarrow> success ''Request failed''
         | Reply_error e \<Rightarrow> error (err_message e)
         | Reply_timeout \<Rightarrow> error (timeout_message ?m (cl_requestId ?c + 1))
         | Reply_closed \<Rightarrow> error ''Connection closed''
         | Reply_disconnect \<Rightarrow> error ''Disconnected''
         | Reply_kill \<Rightarrow> error ''Disconnected'')"
      unfolding t by (rule tool_outcome(1) [OF d(1)])
    have sn: "snd (fail_request pa rep s) = snd ?d"
      unfolding t by (rule tool_outcome(2) [OF d(1)])
    show "s_fetchInterceptor (snd (fail_request pa rep s)) =
        (case rep of
           Reply_result r \<Rightarrow> removePausedRequest (fa_requestId pa) (s_fetchInterceptor s)
         | Reply_disconnect \<Rightarrow> fi_reset (s_fetchInterceptor s)
         | _ \<Rightarrow> s_fetchInterceptor s)"
      unfolding sn by (rule d(2))
    show "cl_wire (s_client (snd (fail_request pa rep s))) =
        cl_wire ?c @
          [\<lparr>req_id = cl_requestId ?c + 1, req_method = ?m, req_params = ?p,
            req_sessionId = (if truthy_string (cl_sessionId ?c) then cl_sessionId ?c else None)\<rparr>]"
      unfolding sn d(3) by (rule call_wire [OF w k])
    show "cl_requestId (s_client (snd (fail_request pa rep s))) = cl_requestId ?c + 1"
      unfolding sn d(3) by (rule call_requestId [OF w k])
  next
    show "getPausedRequest (removePausedRequest i (s_fetchInterceptor s)) i = None"
      by (simp add: removed_is_gone)
  next
    show "getPausedRequest (fi_reset (s_fetchInterceptor s)) i = None"
      by (simp add: getPausedRequest_def fi_reset_def)
  qed
qed


lemma show_nat_digit: "n < 10 \<Longrightarrow> show_nat n = [digit_char n]"
  by (simp add: show_nat.simps)

lemma digit_chars:
  "digit_char 0 = CHR ''0''" "digit_char 1 = CHR ''1''" "digit_char 2 = CHR ''2''"
  "digit_char 3 = CHR ''3''" "digit_char 4 = CHR ''4''" "digit_char 5 = CHR ''5''"
  "digit_char 6 = CHR ''6''" "digit_char 7 = CHR ''7''" "digit_char 8 = CHR ''8''"
  "digit_char 9 = CHR ''9''" "digit_char (Suc 0) = CHR ''1''"
  unfolding digit_char_def by code_simp+

lemma example_session_facts:
  "cl_ws (s_client example_session)" "cl_connected (s_client example_session)"
  "getPausedRequest (s_fetchInterceptor example_session) ''interception-1'' = Some example_pausedRequest"
  "getPausedRequest (s_fetchInterceptor example_session) ''unknown'' = None"
  "cl_requestId (s_client example_session) = 0"
  "cl_wire (s_client example_session) = []"
  by (simp_all add: example_session_def connected_client_def getPausedRequest_def
      FetchInterceptor_new_def CDPClient_new_def)

theorem paused_request_dispatch_witness:
  "fst (continue_request (example_continue ''interception-1'') (Reply_result None) example_session)
     = success ''Request continued'' \<and>
   getPausedRequest (s_fetchInterceptor (snd (continue_request (example_continue ''interception-1'')
     (Reply_result None) example_session))) ''interception-1'' = None \<and>
   map req_method (cl_wire (s_client (snd (continue_request (example_continue ''interception-1'')
     (Reply_result None) example_session)))) = [''Fetch.continueRequest''] \<and>
   fst (fulfill_request (example_fulfill ''interception-1'') Reply_timeout example_session)
     = error ''Request timeout: Fetch.fulfillRequest (1)'' \<and>
   getPausedRequest (s_fetchInterceptor (snd (fulfill_request (example_fulfill ''interception-1'')
     Reply_timeout example_session))) ''interception-1'' = Some example_pausedRequest \<and>
   cl_requestId (s_client (snd (fulfill_request (example_fulfill ''interception-1'')
     Reply_timeout example_session))) = 1 \<and>
   fail_request (example_fail ''unknown'') Reply_timeout example_session
     = (error ''Request not found in paused requests'', example_session)"
proof -
  have ids: "cr_requestId (example_continue i) = i" "fr_requestId (example_fulfill i) = i"
    "fa_requestId (example_fail i) = i" for i
    by (simp_all add: example_continue_def example_fulfill_def example_fail_def)
  note ok = paused_request_dispatch [where s = example_session
      and pc = "example_continue ''interception-1''" and pf = "example_fulfill ''interception-1''"
      and pa = "example_fail ''interception-1''" and rep = "Reply_result None"
      and i = "''interception-1''"]
  note late = paused_request_dispatch [where s = example_session
      and pc = "example_continue ''interception-1''" and pf = "example_fulfill ''interception-1''"
      and pa = "example_fail ''unknown''" and rep = Reply_timeout and i = "''interception-1''"]
  show ?thesis
    using ok late
    by (simp add: ids example_session_facts timeout_message_def show_nat_digit digit_chars)
qed

text \<open>
  The claim as written fails on an id that is in the table: the call is issued, Chrome
  answers it with a protocol error, and the entry is still in the paused table afterwards.
\<close>

theorem paused_request_kept_counterexample:
  "getPausedRequest (s_fetchInterceptor example_session) ''interception-1'' \<noteq> None \<and>
   fst (continue_request (example_continue ''interception-1'') (Reply_error example_protocol_error)
          example_session) = error ''Invalid InterceptionId.'' \<and>
   getPausedRequest (s_fetchInterceptor (snd (continue_request (example_continue ''interception-1'')
     (Reply_error example_protocol_error) example_session))) ''interception-1'' \<noteq> None"
  by (simp add: example_session_def example_continue_def example_protocol_error_def
      continue_request_def continueRequest_def getPausedRequest_def await_send_def call_def send_def
      handleResponse_def connected_client_def CDPClient_new_def DebugSession_new_def
      FetchInterceptor_new_def Let_def)


section \<open>The body of a fulfilled request\<close>

lemma fulfillRequest_wire:
  "cl_ws (s_client s) \<Longrightarrow> cl_connected (s_client s) \<Longrightarrow>
   last_frame (snd (fulfillRequest i code options rep s)) =
     Some \<lparr>req_id = cl_requestId (s_client s) + 1, req_method = ''Fetch.fulfillRequest'',
           req_params = Some (fulfill_params i code options),
           req_sessionId = (if truthy_string (cl_sessionId (s_client s))
                            then cl_sessionId (s_client s) else None)\<rparr>"
proof -
  assume w: "cl_ws (s_client s)" and k: "cl_connected (s_client s)"
  have "s_client (snd (fulfillRequest i code options rep s)) =
      snd (call ''Fetch.fulfillRequest'' (Some (fulfill_params i code options)) rep (s_client s))"
    by (rule dispatch_connected(3) [OF w k, where meth = "''Fetch.fulfillRequest''"
          and params = "Some (fulfill_params i code options)" and rep = rep and i = i,
          folded dispatch_unfold])
  then show ?thesis
    using call_wire [OF w k, of "''Fetch.fulfillRequest''" "Some (fulfill_params i code options)" rep]
    by (simp add: last_frame_def)
qed

lemma body_of_fulfill_params:
  "json_field ''body'' (Some (fulfill_params i code options)) =
     (if truthy_string (fo_body options) then Some (JStr (base64 (the (fo_body options)))) else None)"
  by (simp add: json_field_def fulfill_params_def split: option.splits)

text \<open>
  C9, what the code does. On a connected session and a request that is in the paused table:
  \<open>fulfill_request\<close> with a non-empty text body writes a \<open>Fetch.fulfillRequest\<close> frame
  whose \<open>body\<close> is the base64 encoding of the text; \<open>fulfill_request_with_file\<close> writes
  a \<open>Fetch.fulfillRequest\<close> frame that has no \<open>body\<close> at all: the encoded file content,
  handed over as \<open>bodyBase64\<close>, never reaches the wire.
\<close>

theorem fulfill_body_on_wire:
  assumes "cl_ws (s_client s)" and "cl_connected (s_client s)"
  shows "(getPausedRequest (s_fetchInterceptor s) (fr_requestId pf) \<noteq> None \<and> truthy_string (fr_body pf) \<longrightarrow>
            wire_body (snd (fulfill_request pf rep s)) = Some (JStr (base64 (the (fr_body pf))))) \<and>
         (getPausedRequest (s_fetchInterceptor s) (ff_requestId pw) \<noteq> None \<longrightarrow>
            wire_body (snd (fulfill_request_with_file pw ext (Inr fileContent) rep s)) = None \<and>
            map_option req_method (last_frame (snd (fulfill_request_with_file pw ext (Inr fileContent) rep s)))
              = Some ''Fetch.fulfillRequest'')"
proof (intro conjI impI)
  assume a: "getPausedRequest (s_fetchInterceptor s) (fr_requestId pf) \<noteq> None \<and> truthy_string (fr_body pf)"
  let ?o = "\<lparr>fo_responseHeaders = fr_headers pf, fo_body = fr_body pf,
                   fo_responsePhrase = fr_statusText pf, fo_bodyBase64 = None\<rparr>"
  have "snd (fulfill_request pf rep s) = snd (fulfillRequest (fr_requestId pf) (fr_status pf) ?o rep s)"
    using a by (auto simp add: fulfill_request_def split: prod.splits sum.splits)
  then show "wire_body (snd (fulfill_request pf rep s)) = Some (JStr (base64 (the (fr_body pf))))"
    using a fulfillRequest_wire [OF assms, of "fr_requestId pf" "fr_status pf" ?o rep]
    by (simp add: wire_body_def body_of_fulfill_params)
next
  assume a: "getPausedRequest (s_fetchInterceptor s) (ff_requestId pw) \<noteq> None"
  define hs where "hs = [(''Content-Type'', (case ff_contentType pw of None \<Rightarrow> getMimeType ext | Some t \<Rightarrow> t)),
                       (''Content-Length'', show_nat (length fileContent))]
                      @ (case ff_headers pw of None \<Rightarrow> [] | Some hs \<Rightarrow> hs)"
  let ?o = "\<lparr>fo_responseHeaders = Some hs, fo_body = None,
                           fo_responsePhrase = ff_statusText pw,
                           fo_bodyBase64 = Some (base64 fileContent)\<rparr>"
  let ?code = "(case ff_status pw of None \<Rightarrow> 200 | Some st \<Rightarrow> st)"
  have e: "snd (fulfill_request_with_file pw ext (Inr fileContent) rep s) =
        snd (fulfillRequest (ff_requestId pw) ?code ?o rep s)"
    using a by (auto simp add: fulfill_request_with_file_def hs_def Let_def split: prod.splits sum.splits)
  show "wire_body (snd (fulfill_request_with_file pw ext (Inr fileContent) rep s)) = None"
    using fulfillRequest_wire [OF assms, of "ff_requestId pw" ?code ?o rep]
    by (simp add: e wire_body_def body_of_fulfill_params truthy_string_def)
  show "map_option req_method (last_frame (snd (fulfill_request_with_file pw ext (Inr fileContent) rep s)))
              = Some ''Fetch.fulfillRequest''"
    using fulfillRequest_wire [OF assms, of "ff_requestId pw" ?code ?o rep]
    by (simp add: e)
qed

theorem fulfill_body_on_wire_witness:
  "wire_body (snd (fulfill_request (example_fulfill ''interception-1'') (Reply_result None) example_session))
     = Some (JStr ''e21vY2tlZDp0cnVlfQ=='') \<and>
   base64 ''hi'' = ''aGk='' \<and>
   wire_body (snd (fulfill_request_with_file (example_fulfill_file ''interception-1'') ''.json''
      (Inr ''hi'') (Reply_result None) example_session)) = None"
proof -
  have b: "base64 ''{mocked:true}'' = ''e21vY2tlZDp0cnVlfQ=='' \<and> base64 ''hi'' = ''aGk=''"
    by (simp add: base64_digit_def base64_alphabet_def Let_def)
  have f: "fr_requestId (example_fulfill ''interception-1'') = ''interception-1''"
     "fr_body (example_fulfill ''interception-1'') = Some ''{mocked:true}''"
     "ff_requestId (example_fulfill_file ''interception-1'') = ''interception-1''"
    by (simp_all add: example_fulfill_def example_fulfill_file_def)
  show ?thesis
    using fulfill_body_on_wire [where s = example_session
        and pf = "example_fulfill ''interception-1''" and pw = "example_fulfill_file ''interception-1''"
        and rep = "Reply_result None" and ext = "''.json''" and fileContent = "''hi''"] b
    by (simp add: f example_session_facts truthy_string_def)
qed



section \<open>Disabling the projections\<close>

text \<open>
  C10. \<open>setEnabled(false)\<close> of the FetchInterceptor empties the paused-request table and
  leaves the rule map, the rule objects and the rule-id counter as they were;
  \<open>disableFetch\<close> of the facade, once its \<open>Fetch.disable\<close> call has returned a result, has
  done exactly that to the session's interceptor.
\<close>

theorem setEnabled_false_clears_paused_requests:
  "getAllPausedRequests (fi_setEnabled False fi) = [] \<and>
   fi_pausedRequests (fi_setEnabled False fi) = [] \<and>
   fi_rules (fi_setEnabled False fi) = fi_rules fi \<and>
   fi_objects (fi_setEnabled False fi) = fi_objects fi \<and>
   fi_ruleIdCounter (fi_setEnabled False fi) = fi_ruleIdCounter fi \<and>
   (cl_ws (s_client s) \<and> cl_connected (s_client s) \<longrightarrow>
      s_fetchInterceptor (snd (disableFetch (Reply_result r) s)) =
        fi_setEnabled False (s_fetchInterceptor s))"
proof -
  have "s_fetchInterceptor (snd (disableFetch (Reply_result r) s)) =
        fi_setEnabled False (s_fetchInterceptor s)"
    if "cl_ws (s_client s)" "cl_connected (s_client s)"
    by (simp add: disableFetch_def await_send_result [OF that])
  then show ?thesis
    by (simp add: fi_setEnabled_def getAllPausedRequests_def Map_values_def)
qed

lemma example_rule_session_facts:
  "cl_ws (s_client example_rule_session)" "cl_connected (s_client example_rule_session)"
  "getAllPausedRequests (s_fetchInterceptor example_rule_session) = [example_pausedRequest]"
  "fi_rules (s_fetchInterceptor example_rule_session) = [(''rule-1'', 0)]"
  "fi_objects (s_fetchInterceptor example_rule_session) = [rule_of_spec ''rule-1'' example_rule]"
  "fi_ruleIdCounter (s_fetchInterceptor example_rule_session) = 1"
  by (simp_all add: example_rule_session_def example_session_def connected_client_def
      getAllPausedRequests_def Map_values_def FetchInterceptor_new_def CDPClient_new_def
      addRule_def Let_def show_nat_digit digit_chars)

theorem setEnabled_false_clears_paused_requests_witness:
  "getAllPausedRequests (s_fetchInterceptor example_rule_session) = [example_pausedRequest] \<and>
   getAllPausedRequests (s_fetchInterceptor (snd (disableFetch (Reply_result None) example_rule_session))) = [] \<and>
   fi_rules (s_fetchInterceptor (snd (disableFetch (Reply_result None) example_rule_session))) =
     [(''rule-1'', 0)] \<and>
   fi_objects (s_fetchInterceptor (snd (disableFetch (Reply_result None) example_rule_session))) =
     [rule_of_spec ''rule-1'' example_rule] \<and>
   fi_ruleIdCounter (s_fetchInterceptor (snd (disableFetch (Reply_result None) example_rule_session))) = 1"
  using setEnabled_false_clears_paused_requests
      [where s = example_rule_session and fi = "s_fetchInterceptor example_rule_session" and r = None]
  by (simp add: example_rule_session_facts)


lemma ds_disabled_new: "ds_setEnabled False ds = DebugState_new"
  by (simp add: ds_setEnabled_def ds_reset_def DebugState_new_def)

lemma ds_new_queries:
  "getPauseState DebugState_new = not_paused"
  "isPaused DebugState_new = False"
  "getCallFrames DebugState_new = []"
  "getCallFrame DebugState_new k = None"
  "getTopCallFrame DebugState_new = None"
  "getAllBreakpoints DebugState_new = []"
  "getBreakpoint DebugState_new i = None"
  "findBreakpointByLocation DebugState_new scriptId line col = None"
  "getPauseOnExceptions DebugState_new = poe_none"
  "getLastException DebugState_new = None"
  "getAsyncStackTraceDepth DebugState_new = 0"
  "ds_isEnabled DebugState_new = False"
  "toJSON DebugState_new =
     \<lparr>j_enabled = False, j_isPaused = False, j_pauseReason = None, j_callFrameCount = 0,
      j_breakpointCount = 0, j_pauseOnExceptions = poe_none, j_asyncStackTraceDepth = 0\<rparr>"
  by (simp_all add: DebugState_new_def getPauseState_def isPaused_def getCallFrames_def
      getCallFrame_def getTopCallFrame_def getAllBreakpoints_def getBreakpoint_def
      findBreakpointByLocation_def getPauseOnExceptions_def getLastException_def
      getAsyncStackTraceDepth_def ds_isEnabled_def toJSON_def not_paused_def Map_values_def
      Map_size_def)

lemma ns_disabled:
  "ns_isEnabled (ns_setEnabled False ns) = False"
  "getAllRequests (ns_setEnabled False ns) = []"
  "getRequest (ns_setEnabled False ns) i = None"
  "getRequestsByType (ns_setEnabled False ns) t = []"
  "getFailedRequests (ns_setEnabled False ns) = []"
  "getPendingRequests (ns_setEnabled False ns) = []"
  "getCount (ns_setEnabled False ns) = 0"
  "ns_getSummary (ns_setEnabled False ns) =
     \<lparr>nsum_total = 0, nsum_completed = 0, nsum_failed = 0, nsum_pending = 0\<rparr>"
  "getRequestsByUrl rx (ns_setEnabled False ns) pat =
     (case ns_patternToRegex rx pat of Inl e \<Rightarrow> Inl e | Inr regex \<Rightarrow> Inr [])"
  by (simp_all add: ns_setEnabled_def ns_clear_def getAllRequests_def getRequest_def
      getRequestsByType_def getFailedRequests_def getPendingRequests_def getCount_def
      ns_getSummary_def getRequestsByUrl_def Map_values_def Map_size_def ns_isEnabled_def
      split: sum.splits)

lemma cs_disabled:
  "cs_isEnabled (cs_setEnabled False cs) = False"
  "getMessages (cs_setEnabled False cs) = []"
  "getMessagesByLevel (cs_setEnabled False cs) level = []"
  "getMessagesByType (cs_setEnabled False cs) t = []"
  "getErrors (cs_setEnabled False cs) = []"
  "getWarnings (cs_setEnabled False cs) = []"
  "getExceptions (cs_setEnabled False cs) = []"
  "getMessageCount (cs_setEnabled False cs) = 0"
  "getExceptionCount (cs_setEnabled False cs) = 0"
  "cs_getSummary (cs_setEnabled False cs) =
     \<lparr>csum_total = 0, csum_errors = 0, csum_warnings = 0, csum_exceptions = 0\<rparr>"
  by (simp_all add: cs_setEnabled_def cs_clear_def getMessages_def getMessagesByLevel_def
      getMessagesByType_def getErrors_def getWarnings_def getExceptions_def getMessageCount_def
      getExceptionCount_def cs_getSummary_def cs_isEnabled_def)

lemma fi_disabled:
  "fi_isEnabled (fi_setEnabled False fi) = False"
  "getAllPausedRequests (fi_setEnabled False fi) = []"
  "getPausedRequest (fi_setEnabled False fi) i = None"
  "pausedRequests (fi_getSummary (fi_setEnabled False fi)) = 0"
  "getAllRules (fi_setEnabled False fi) = getAllRules fi"
  "getRule (fi_setEnabled False fi) i = getRule fi i"
  "findMatchingRule rx (fi_setEnabled False fi) url rt = findMatchingRule rx fi url rt"
  "ruleCount (fi_getSummary (fi_setEnabled False fi)) = ruleCount (fi_getSummary fi)"
  "enabledRules (fi_getSummary (fi_setEnabled False fi)) = enabledRules (fi_getSummary fi)"
  "getCDPPatterns (fi_setEnabled False fi) = getCDPPatterns fi"
  by (simp_all add: fi_setEnabled_def getAllPausedRequests_def getPausedRequest_def fi_getSummary_def
      getAllRules_def getRule_def getCDPPatterns_def Map_values_def Map_size_def fi_isEnabled_def
      findMatchingRule_def rule_values_def cong: option.case_cong)

lemma disableDebugger_result:
  "cl_ws (s_client s) \<Longrightarrow> cl_connected (s_client s) \<Longrightarrow>
   s_debugState (snd (disableDebugger (Reply_result r) s)) = ds_setEnabled False (s_debugState s) \<and>
   s_scriptRegistry (snd (disableDebugger (Reply_result r) s)) = s_scriptRegistry s"
  by (simp add: disableDebugger_def await_send_result)

text \<open>
  C8, as the code has it. After \<open>setEnabled(false)\<close>:
  DebugState is the initial DebugState, so every one of its queries answers as on a fresh
  state (not paused, no call frame, no breakpoint, pause on exceptions \<open>none\<close>, no last
  exception, async stack depth 0);
  NetworkState answers every query with the empty list and every count with zero, where
  \<open>getRequestsByUrl\<close> does so for every pattern it can compile and throws, as in any
  state, for a pattern it cannot;
  ConsoleState answers every query with the empty list and every count with zero;
  the FetchInterceptor has no paused request, while its rules, and so \<open>getRule\<close>,
  \<open>getAllRules\<close>, \<open>findMatchingRule\<close>, \<open>ruleCount\<close>, \<open>enabledRules\<close> and the CDP
  patterns, are what they were before.
  The ScriptRegistry has no \<open>setEnabled\<close>; \<open>disableDebugger\<close> of the facade, once its call
  has returned a result, has disabled DebugState and left the ScriptRegistry as it was.
\<close>

theorem setEnabled_false_queries:
  "ds_setEnabled False ds = DebugState_new \<and>
   getPauseState (ds_setEnabled False ds) = not_paused \<and>
   isPaused (ds_setEnabled False ds) = False \<and>
   getCallFrames (ds_setEnabled False ds) = [] \<and>
   getCallFrame (ds_setEnabled False ds) k = None \<and>
   getTopCallFrame (ds_setEnabled False ds) = None \<and>
   getAllBreakpoints (ds_setEnabled False ds) = [] \<and>
   getBreakpoint (ds_setEnabled False ds) i = None \<and>
   findBreakpointByLocation (ds_setEnabled False ds) scriptId line col = None \<and>
   getPauseOnExceptions (ds_setEnabled False ds) = poe_none \<and>
   getLastException (ds_setEnabled False ds) = None \<and>
   getAsyncStackTraceDepth (ds_setEnabled False ds) = 0 \<and>
   ds_isEnabled (ds_setEnabled False ds) = False \<and>
   toJSON (ds_setEnabled False ds) =
     \<lparr>j_enabled = False, j_isPaused = False, j_pauseReason = None, j_callFrameCount = 0,
      j_breakpointCount = 0, j_pauseOnExceptions = poe_none, j_asyncStackTraceDepth = 0\<rparr> \<and>
   ns_isEnabled (ns_setEnabled False ns) = False \<and>
   getAllRequests (ns_setEnabled False ns) = [] \<and>
   getRequest (ns_setEnabled False ns) i = None \<and>
   getRequestsByType (ns_setEnabled False ns) t = [] \<and>
   getFailedRequests (ns_setEnabled False ns) = [] \<and>
   getPendingRequests (ns_setEnabled False ns) = [] \<and>
   getCount (ns_setEnabled False ns) = 0 \<and>
   ns_getSummary (ns_setEnabled False ns) =
     \<lparr>nsum_total = 0, nsum_completed = 0, nsum_failed = 0, nsum_pending = 0\<rparr> \<and>
   getRequestsByUrl rx (ns_setEnabled False ns) pat =
     (case ns_patternToRegex rx pat of Inl e \<Rightarrow> Inl e | Inr regex \<Rightarrow> Inr []) \<and>
   cs_isEnabled (cs_setEnabled False cs) = False \<and>
   getMessages (cs_setEnabled False cs) = [] \<and>
   getMessagesByLevel (cs_setEnabled False cs) level = [] \<and>
   getMessagesByType (cs_setEnabled False cs) t = [] \<and>
   getErrors (cs_setEnabled False cs) = [] \<and>
   getWarnings (cs_setEnabled False cs) = [] \<and>
   getExceptions (cs_setEnabled False cs) = [] \<and>
   getMessageCount (cs_setEnabled False cs) = 0 \<and>
   getExceptionCount (cs_setEnabled False cs) = 0 \<and>
   cs_getSummary (cs_setEnabled False cs) =
     \<lparr>csum_total = 0, csum_errors = 0, csum_warnings = 0, csum_exceptions = 0\<rparr> \<and>
   fi_isEnabled (fi_setEnabled False fi) = False \<and>
   getAllPausedRequests (fi_setEnabled False fi) = [] \<and>
   getPausedRequest (fi_setEnabled False fi) i = None \<and>
   pausedRequests (fi_getSummary (fi_setEnabled False fi)) = 0 \<and>
   getAllRules (fi_setEnabled False fi) = getAllRules fi \<and>
   getRule (fi_setEnabled False fi) i = getRule fi i \<and>
   findMatchingRule rx (fi_setEnabled False fi) url rt = findMatchingRule rx fi url rt \<and>
   ruleCount (fi_getSummary (fi_setEnabled False fi)) = ruleCount (fi_getSummary fi) \<and>
   enabledRules (fi_getSummary (fi_setEnabled False fi)) = enabledRules (fi_getSummary fi) \<and>
   getCDPPatterns (fi_setEnabled False fi) = getCDPPatterns fi \<and>
   (cl_ws (s_client s) \<and> cl_connected (s_client s) \<longrightarrow>
      s_debugState (snd (disableDebugger (Reply_result r) s)) = DebugState_new \<and>
      s_scriptRegistry (snd (disableDebugger (Reply_result r) s)) = s_scriptRegistry s)"
proof -
  have last: "cl_ws (s_client s) \<and> cl_connected (s_client s) \<longrightarrow>
      s_debugState (snd (disableDebugger (Reply_result r) s)) = DebugState_new \<and>
      s_scriptRegistry (snd (disableDebugger (Reply_result r) s)) = s_scriptRegistry s"
    using disableDebugger_result [of s r] by (simp add: ds_disabled_new)
  show ?thesis
    unfolding ds_disabled_new
    by (intro conjI refl last) (rule ds_new_queries ns_disabled cs_disabled fi_disabled)+
qed

theorem setEnabled_false_queries_witness:
  "getAllBreakpoints (addBreakpoint example_breakpoint DebugState_new) \<noteq> [] \<and>
   ds_setEnabled False (addBreakpoint example_breakpoint DebugState_new) = DebugState_new \<and>
   getAllBreakpoints (ds_setEnabled False (addBreakpoint example_breakpoint DebugState_new)) = [] \<and>
   getAllPausedRequests (fi_setEnabled False (s_fetchInterceptor example_rule_session)) = [] \<and>
   getAllRules (fi_setEnabled False (s_fetchInterceptor example_rule_session)) =
     [rule_of_spec ''rule-1'' example_rule] \<and>
   isPaused (s_debugState example_paused_session) \<and>
   s_debugState (snd (disableDebugger (Reply_result None) example_paused_session)) = DebugState_new \<and>
   s_scriptRegistry (snd (disableDebugger (Reply_result None) example_paused_session)) =
     s_scriptRegistry example_paused_session"
proof -
  have a: "getAllBreakpoints (addBreakpoint example_breakpoint DebugState_new) \<noteq> []"
    by (simp add: getAllBreakpoints_def addBreakpoint_def DebugState_new_def Map_values_def)
  have b: "getAllRules (s_fetchInterceptor example_rule_session) = [rule_of_spec ''rule-1'' example_rule]"
    by (simp add: getAllRules_def example_rule_session_facts Map_values_def List.map_filter_simps
        deref_def)
  have c: "cl_ws (s_client example_paused_session)" "cl_connected (s_client example_paused_session)"
    "isPaused (s_debugState example_paused_session)"
    by (simp_all add: example_paused_session_def example_session_facts isPaused_def setPaused_def)
  note t = setEnabled_false_queries [where ds = "addBreakpoint example_breakpoint DebugState_new"
        and fi = "s_fetchInterceptor example_rule_session" and s = example_paused_session
        and r = None and ns = NetworkState_new and cs = ConsoleState_new and i = "''bp1''"
        and k = 0 and scriptId = "''script1''" and line = 10 and col = None and t = "''XHR''"
        and rx = RegExp_lite and pat = "''*''" and level = "''error''"
        and url = "''http://example.com/api/1''" and rt = "''XHR''"]
  have d1: "ds_setEnabled False (addBreakpoint example_breakpoint DebugState_new) = DebugState_new"
    using t by (elim conjE) assumption
  have d2: "getAllBreakpoints (ds_setEnabled False (addBreakpoint example_breakpoint DebugState_new)) = []"
    using t by (elim conjE) assumption
  have f1: "getAllPausedRequests (fi_setEnabled False (s_fetchInterceptor example_rule_session)) = []"
    using t by (elim conjE) assumption
  have f2: "getAllRules (fi_setEnabled False (s_fetchInterceptor example_rule_session)) =
      getAllRules (s_fetchInterceptor example_rule_session)"
    using t by (elim conjE) assumption
  have "cl_ws (s_client example_paused_session) \<and> cl_connected (s_client example_paused_session) \<longrightarrow>
      s_debugState (snd (disableDebugger (Reply_result None) example_paused_session)) = DebugState_new \<and>
      s_scriptRegistry (snd (disableDebugger (Reply_result None) example_paused_session)) =
        s_scriptRegistry example_paused_session"
    using t by (elim conjE) assumption
  with c have g: "s_debugState (snd (disableDebugger (Reply_result None) example_paused_session)) = DebugState_new"
    "s_scriptRegistry (snd (disableDebugger (Reply_result None) example_paused_session)) =
        s_scriptRegistry example_paused_session"
    by simp_all
  show ?thesis
    using a b c(3) d1 d2 f1 f2 g by simp
qed

text \<open>
  The claim as written fails for the FetchInterceptor: with one rule added,
  \<open>setEnabled(false)\<close> leaves \<open>getAllRules()\<close> non-empty and the summary reports one rule,
  enabled.
\<close>

theorem setEnabled_false_keeps_rules_counterexample:
  "getAllRules (fi_setEnabled False (snd (addRule example_rule FetchInterceptor_new))) \<noteq> [] \<and>
   ruleCount (fi_getSummary (fi_setEnabled False (snd (addRule example_rule FetchInterceptor_new)))) = 1 \<and>
   enabledRules (fi_getSummary (fi_setEnabled False (snd (addRule example_rule FetchInterceptor_new)))) = 1"
  by (simp add: fi_setEnabled_def addRule_def FetchInterceptor_new_def getAllRules_def
      fi_getSummary_def Map_values_def Map_size_def Let_def rule_of_spec_def example_rule_def
      List.map_filter_simps deref_def)


section \<open>Bounded eviction of collected requests\<close>















end
